theory Spec2Isabelle
  imports Main
begin

section \<open>JavaScript strings and values\<close>

text \<open>
  Strings are lists of characters, a character being a code unit below 256. The model
  is exact on ASCII text: \<open>toLowerCase\<close> and \<open>toUpperCase\<close> change the letters A-Z / a-z
  only and \<open>\d\<close> is 0-9. White space (for \<open>trim\<close> and \<open>\s\<close>) is tab, line feed,
  vertical tab, form feed, carriage return, space and the no-break space; the white space
  of JavaScript above code 255 has no character here.
  A JavaScript value that may be \<open>undefined\<close> is a \<open>string option\<close>.
\<close>

definition toLowerChar :: "char \<Rightarrow> char" where
  "toLowerChar c =
     (case map_of (zip ''ABCDEFGHIJKLMNOPQRSTUVWXYZ'' ''abcdefghijklmnopqrstuvwxyz'') c of
        Some d \<Rightarrow> d | None \<Rightarrow> c)"

definition toUpperChar :: "char \<Rightarrow> char" where
  "toUpperChar c =
     (case map_of (zip ''abcdefghijklmnopqrstuvwxyz'' ''ABCDEFGHIJKLMNOPQRSTUVWXYZ'') c of
        Some d \<Rightarrow> d | None \<Rightarrow> c)"

definition toLowerCase :: "string \<Rightarrow> string" where
  "toLowerCase s = map toLowerChar s"

definition toUpperCase :: "string \<Rightarrow> string" where
  "toUpperCase s = map toUpperChar s"

definition isSpace :: "char \<Rightarrow> bool" where
  "isSpace c =
     (c \<in> set [CHR 0x09, CHR 0x0A, CHR 0x0B, CHR 0x0C, CHR 0x0D, CHR '' '', CHR 0xA0])"

definition isDigit :: "char \<Rightarrow> bool" where
  "isDigit c = (c \<in> set ''0123456789'')"

definition trim :: "string \<Rightarrow> string" where
  "trim s = rev (dropWhile isSpace (rev (dropWhile isSpace s)))"

fun startsWith :: "string \<Rightarrow> string \<Rightarrow> bool" where
  "startsWith s [] = True"
| "startsWith [] (p # ps) = False"
| "startsWith (c # cs) (p # ps) = (c = p \<and> startsWith cs ps)"

text \<open>\<open>s.includes(sub)\<close> on strings: \<open>sub\<close> occurs in \<open>s\<close> as a contiguous run.\<close>

fun str_includes :: "string \<Rightarrow> string \<Rightarrow> bool" where
  "str_includes [] sub = (sub = [])"
| "str_includes (c # cs) sub = (startsWith (c # cs) sub \<or> str_includes cs sub)"

text \<open>\<open>s.replace(/\D/g, '')\<close>: the digits of \<open>s\<close>, in order.\<close>

definition digitsOnly :: "string \<Rightarrow> string" where
  "digitsOnly s = filter isDigit s"

text \<open>\<open>s.slice(-3)\<close>: the last three characters (all of \<open>s\<close> when it is shorter).\<close>

definition sliceLast3 :: "string \<Rightarrow> string" where
  "sliceLast3 s = drop (length s - 3) s"

text \<open>\<open>s.padStart(n, '0')\<close>.\<close>

definition padStart0 :: "nat \<Rightarrow> string \<Rightarrow> string" where
  "padStart0 n s = replicate (n - length s) (CHR ''0'') @ s"

text \<open>Truthiness of a possibly undefined string: \<open>undefined\<close> and \<open>''\<close> are falsy.\<close>

fun truthy :: "string option \<Rightarrow> bool" where
  "truthy None = False"
| "truthy (Some s) = (s \<noteq> [])"

text \<open>\<open>a || b\<close> on possibly undefined strings.\<close>

definition orElse :: "string option \<Rightarrow> string option \<Rightarrow> string option" where
  "orElse a b = (if truthy a then a else b)"

section \<open>The signature registry and the file type classifier (smartFileProcessor)\<close>

record signature =
  requiredColumns :: "string list"
  optionalColumns :: "string list option"
  amountColumns :: "string list option"
  targetTable :: string
  processor :: string
  sourceType :: "string option"

text \<open>\<open>fileSignatures\<close>, in declaration order (the order \<open>Object.entries\<close> walks).\<close>

definition fileSignatures :: "(string \<times> signature) list" where
  "fileSignatures =
   [(''passengers'',
      \<lparr>requiredColumns = [''PassengerKey'', ''FullName''],
       optionalColumns = Some [''Email'', ''LoyaltyStatus''],
       amountColumns = None, targetTable = ''dim_passenger'',
       processor = ''processPassengerData'', sourceType = None\<rparr>),
    (''airports'',
      \<lparr>requiredColumns = [''AirportKey'', ''AirportName'', ''City'', ''Country''],
       optionalColumns = None,
       amountColumns = None, targetTable = ''dim_airport'',
       processor = ''processAirportData'', sourceType = None\<rparr>),
    (''airlines'',
      \<lparr>requiredColumns = [''AirlineKey'', ''AirlineName''],
       optionalColumns = Some [''Alliance''],
       amountColumns = None, targetTable = ''dim_airline'',
       processor = ''processAirlineData'', sourceType = None\<rparr>),
    (''flights'',
      \<lparr>requiredColumns = [''FlightKey'', ''OriginAirportKey'', ''DestinationAirportKey''],
       optionalColumns = Some [''AircraftType''],
       amountColumns = None, targetTable = ''dim_flight'',
       processor = ''processFlightData'', sourceType = None\<rparr>),
    (''travel_agency_sales'',
      \<lparr>requiredColumns = [''TransactionID'', ''TransactionDate'', ''PassengerID'', ''FlightID''],
       optionalColumns = None,
       amountColumns = Some [''TicketPrice'', ''Taxes'', ''BaggageFees'', ''TotalAmount''],
       targetTable = ''fact_sales'',
       processor = ''processSalesData'', sourceType = Some ''travel_agency''\<rparr>),
    (''corporate_sales'',
      \<lparr>requiredColumns = [''TransactionID'', ''DateKey'', ''PassengerKey'', ''FlightKey''],
       optionalColumns = None,
       amountColumns = Some [''TicketPrice'', ''Taxes'', ''BaggageFees'', ''TotalAmount''],
       targetTable = ''fact_sales'',
       processor = ''processSalesData'', sourceType = Some ''corporate''\<rparr>)]"

text \<open>
  One turn of the \<open>for (const [fileType, signature] of ...)\<close> loop of \<open>detectFileType\<close>:
  does the entry return? \<open>lowerHeaders\<close> is the list the source builds with
  \<open>headers.map(h => h.trim())\<close>; the registry's column is lower-cased, the header is not.
\<close>

definition hasRequired :: "signature \<Rightarrow> string list \<Rightarrow> bool" where
  "hasRequired sg lowerHeaders =
     list_all (\<lambda>col. toLowerCase col \<in> set lowerHeaders) (requiredColumns sg)"

definition hasAmountColumns :: "signature \<Rightarrow> string list \<Rightarrow> bool" where
  "hasAmountColumns sg lowerHeaders =
     (case amountColumns sg of
        None \<Rightarrow> False
      | Some cols \<Rightarrow> list_ex (\<lambda>col. toLowerCase col \<in> set lowerHeaders) cols)"

definition signatureHit :: "string \<times> signature \<Rightarrow> string list \<Rightarrow> bool" where
  "signatureHit e lowerHeaders =
     (if str_includes (fst e) ''sales''
      then hasRequired (snd e) lowerHeaders \<and> hasAmountColumns (snd e) lowerHeaders
      else hasRequired (snd e) lowerHeaders)"

fun firstHit :: "(string \<times> signature) list \<Rightarrow> string list \<Rightarrow> string option" where
  "firstHit [] lowerHeaders = None"
| "firstHit (e # es) lowerHeaders =
     (if signatureHit e lowerHeaders then Some (fst e) else firstHit es lowerHeaders)"

definition someIncludes :: "string list \<Rightarrow> string \<Rightarrow> bool" where
  "someIncludes headers frag = list_ex (\<lambda>h. str_includes (toLowerCase h) frag) headers"

definition fuzzyMatch :: "string list \<Rightarrow> string" where
  "fuzzyMatch headers =
     (if someIncludes headers ''passenger'' then ''passengers''
      else if someIncludes headers ''airport'' then ''airports''
      else if someIncludes headers ''airline'' then ''airlines''
      else if someIncludes headers ''flight'' then ''flights''
      else if someIncludes headers ''transaction'' then
        (if someIncludes headers ''travel'' \<or> someIncludes headers ''agency''
         then ''travel_agency_sales''
         else if someIncludes headers ''corporate'' \<or> someIncludes headers ''datekey''
         then ''corporate_sales''
         else ''travel_agency_sales'')
      else ''unknown'')"

definition detectIn :: "(string \<times> signature) list \<Rightarrow> string list \<Rightarrow> string" where
  "detectIn registry headers =
     (case firstHit registry (map trim headers) of
        Some fileType \<Rightarrow> fileType
      | None \<Rightarrow> fuzzyMatch headers)"

definition detectFileType :: "string list \<Rightarrow> string" where
  "detectFileType headers = detectIn fileSignatures headers"

text \<open>
  The specification's reading of a match, for comparison with the code: every required
  column is among the trimmed headers, compared without regard to case, and a sales
  signature also has one of its amount columns there.
\<close>

definition spec_present :: "string \<Rightarrow> string list \<Rightarrow> bool" where
  "spec_present col headers = (toLowerCase col \<in> set (map (\<lambda>h. toLowerCase (trim h)) headers))"

definition spec_satisfies :: "string \<times> signature \<Rightarrow> string list \<Rightarrow> bool" where
  "spec_satisfies e headers =
     (list_all (\<lambda>col. spec_present col headers) (requiredColumns (snd e)) \<and>
      (if str_includes (fst e) ''sales''
       then (case amountColumns (snd e) of
               None \<Rightarrow> False
             | Some cols \<Rightarrow> list_ex (\<lambda>col. spec_present col headers) cols)
       else True))"

definition spec_satisfied :: "string list \<Rightarrow> string list" where
  "spec_satisfied headers = map fst (filter (\<lambda>e. spec_satisfies e headers) fileSignatures)"

section \<open>Rows and the passenger standardizers\<close>

text \<open>
  A raw row is the object the CSV reader builds: column name to cell text, in file
  order, each column name once. A column the file does not have reads as \<open>undefined\<close>
  (\<open>None\<close>).
\<close>

type_synonym raw_row = "(string \<times> string) list"

definition field :: "raw_row \<Rightarrow> string \<Rightarrow> string option" where
  "field row name = map_of row name"

text \<open>Template-literal rendering of a possibly undefined string.\<close>

fun render :: "string option \<Rightarrow> string" where
  "render None = ''undefined''"
| "render (Some s) = s"

text \<open>
  \<open>standardizePassengerKey\<close> of smartFileProcessor; \<open>SalesUploader.standardizePassengerKey\<close>
  in uploadAllSales.js has the same body.
\<close>

definition standardizePassengerKey :: "string option \<Rightarrow> string option" where
  "standardizePassengerKey inputKey =
     (case inputKey of
        None \<Rightarrow> None
      | Some k \<Rightarrow>
          if k = [] then None
          else if \<not> str_includes k ''P'' then None
          else (let numbers = digitsOnly k in
                if length numbers < 3 then None
                else Some (''P'' @ padStart0 3 (sliceLast3 numbers))))"

text \<open>\<open>standardizePassengerKey\<close> of uploadPassengers.js.\<close>

definition standardizePassengerKey_pax :: "string option \<Rightarrow> string option" where
  "standardizePassengerKey_pax inputKey0 =
     (case inputKey0 of
        None \<Rightarrow> None
      | Some k0 \<Rightarrow>
          if k0 = [] then None
          else (let inputKey = trim k0 in
            if startsWith inputKey ''P'' \<and> list_ex isDigit inputKey then
              (let numbersOnly = digitsOnly inputKey in
               if length numbersOnly < 3 then None
               else Some (''P'' @ padStart0 3 (sliceLast3 numbersOnly)))
            else if list_ex isDigit inputKey then
              (let numbersOnly = digitsOnly inputKey in
               if length numbersOnly < 3 then None
               else Some (''P'' @ padStart0 3 (sliceLast3 numbersOnly)))
            else None))"

text \<open>
  \<open>/^[^\s@]+@[^\s@]+\.[^\s@]+$/.test(s)\<close>: no white space, exactly one \<open>@\<close> with text before
  it, and after it a dot that is neither the first nor the last character.
\<close>

definition emailRegexTest :: "string \<Rightarrow> bool" where
  "emailRegexTest s =
     (let local = takeWhile (\<lambda>c. c \<noteq> CHR ''@'') s;
          rest = dropWhile (\<lambda>c. c \<noteq> CHR ''@'') s
      in \<not> list_ex isSpace s \<and> local \<noteq> [] \<and> rest \<noteq> [] \<and>
         CHR ''@'' \<notin> set (tl rest) \<and> CHR ''.'' \<in> set (butlast (tl (tl rest))))"

text \<open>\<open>s.split(' ')\<close>: the pieces between single spaces, empty pieces kept.\<close>

fun splitSpace :: "string \<Rightarrow> string list" where
  "splitSpace [] = [[]]"
| "splitSpace (c # cs) =
     (if c = CHR '' '' then [] # splitSpace cs
      else (case splitSpace cs of [] \<Rightarrow> [[c]] | w # ws \<Rightarrow> (c # w) # ws))"

text \<open>\<open>standardizeEmail\<close> of smartFileProcessor.\<close>

definition standardizeEmail :: "string option \<Rightarrow> string option \<Rightarrow> string" where
  "standardizeEmail fullName existingEmail =
     (if truthy existingEmail \<and> emailRegexTest (the existingEmail)
      then toLowerCase (the existingEmail)
      else
        (let names = (case fullName of None \<Rightarrow> [] | Some n \<Rightarrow> splitSpace (trim n));
             firstName = (case names of
                            [] \<Rightarrow> ''user''
                          | n # _ \<Rightarrow> if toLowerCase n = [] then ''user'' else toLowerCase n);
             lastName = (if length names > 1 then toLowerCase (last names) else [])
         in if lastName \<noteq> [] then firstName @ ''.'' @ lastName @ ''@example.com''
            else firstName @ ''@example.com''))"

text \<open>\<open>standardizeEmail\<close> of uploadPassengers.js; its caller always passes a name.\<close>

definition standardizeEmail_pax :: "string \<Rightarrow> string option \<Rightarrow> string" where
  "standardizeEmail_pax fullName existingEmail =
     (if truthy existingEmail \<and> emailRegexTest (the existingEmail)
      then toLowerCase (the existingEmail)
      else
        (let names = splitSpace (trim fullName);
             firstName = toLowerCase (hd names);
             lastName = (if length names > 1 then toLowerCase (last names) else [])
         in if lastName \<noteq> [] then firstName @ ''.'' @ lastName @ ''@example.com''
            else firstName @ ''@example.com''))"

definition standardizeLoyaltyStatus :: "string option \<Rightarrow> string" where
  "standardizeLoyaltyStatus status =
     (if \<not> truthy status then ''Bronze''
      else (let upperStatus = toUpperCase (trim (the status)) in
        if str_includes upperStatus ''PLATINUM'' \<or> upperStatus = ''PLAT'' then ''Platinum''
        else if str_includes upperStatus ''GOLD'' \<or> upperStatus = ''GOLD'' then ''Gold''
        else if str_includes upperStatus ''SILVER'' \<or> upperStatus = ''SILV'' then ''Silver''
        else if str_includes upperStatus ''BRONZE'' \<or> upperStatus = ''BRNZ'' then ''Bronze''
        else ''Bronze''))"

record passenger =
  passenger_key :: string
  full_name :: "string option"
  email :: string
  loyalty_status :: string

text \<open>An item of \<open>dirtyData\<close> in smartFileProcessor: the row and the reason.\<close>

record reject =
  row :: raw_row
  reason :: string

text \<open>\<open>x?.trim()\<close>.\<close>

definition trimOpt :: "string option \<Rightarrow> string option" where
  "trimOpt x = map_option trim x"

text \<open>
  One turn of the loop of \<open>processPassengerData\<close>. With cells that are strings or
  undefined nothing in the body throws, so the \<open>catch\<close> branch is never taken.
\<close>

definition passengerRow :: "raw_row \<Rightarrow> reject + passenger" where
  "passengerRow r =
     (case standardizePassengerKey (field r ''PassengerKey'') of
        None \<Rightarrow> Inl \<lparr>row = r, reason = ''Invalid passenger key''\<rparr>
      | Some passengerKey \<Rightarrow>
          Inr \<lparr>passenger_key = passengerKey,
               full_name = trimOpt (field r ''FullName''),
               email = standardizeEmail (field r ''FullName'') (field r ''Email''),
               loyalty_status =
                 (case orElse (trimOpt (field r ''LoyaltyStatus'')) (Some ''Bronze'') of
                    Some s \<Rightarrow> s | None \<Rightarrow> ''Bronze'')\<rparr>)"

text \<open>The two lists a processor returns: \<open>cleanData\<close> and \<open>dirtyData\<close>.\<close>

definition cleanOf :: "('e + 'c) list \<Rightarrow> 'c list" where
  "cleanOf outs = concat (map (\<lambda>out. case out of Inl _ \<Rightarrow> [] | Inr c \<Rightarrow> [c]) outs)"

definition dirtyOf :: "('e + 'c) list \<Rightarrow> 'e list" where
  "dirtyOf outs = concat (map (\<lambda>out. case out of Inl e \<Rightarrow> [e] | Inr _ \<Rightarrow> []) outs)"

definition processPassengerData :: "raw_row list \<Rightarrow> passenger list \<times> reject list" where
  "processPassengerData data = (cleanOf (map passengerRow data), dirtyOf (map passengerRow data))"

text \<open>
  Step 2 of \<open>uploadPassengers\<close>: the loop over \<open>rawRows\<close>. \<open>passengerMap\<close> is a Map, kept
  here in insertion order; a key is set only when it is not yet there. \<open>toDirty\<close> lists
  the \<open>saveToDirtyTable(row, reason)\<close> calls in order; their result is ignored by the
  loop, so the remote write is not part of this step.
\<close>

record pax_entry =
  rowNumber :: nat
  originalKey :: "string option"
  data :: passenger

record pax_state =
  passengerMap :: "(string \<times> pax_entry) list"
  toDirty :: "reject list"

text \<open>The \<open>data\<close> object stored for a row whose standardized key is new.\<close>

definition paxRecord :: "string \<Rightarrow> raw_row \<Rightarrow> passenger" where
  "paxRecord standardizedKey r =
     (let fullName = (case orElse (trimOpt (field r ''FullName'')) (Some ''Unknown'') of
                        Some s \<Rightarrow> s | None \<Rightarrow> ''Unknown'') in
      \<lparr>passenger_key = standardizedKey,
       full_name = Some fullName,
       email = standardizeEmail_pax fullName (trimOpt (field r ''Email'')),
       loyalty_status = standardizeLoyaltyStatus (field r ''LoyaltyStatus'')\<rparr>)"

definition paxRowStep :: "pax_state \<Rightarrow> nat \<times> raw_row \<Rightarrow> pax_state" where
  "paxRowStep st ir =
     (let i = fst ir; r = snd ir;
          originalKey = trimOpt (field r ''PassengerKey'') in
      case standardizePassengerKey_pax originalKey of
        None \<Rightarrow>
          st\<lparr>toDirty := toDirty st @
               [\<lparr>row = r, reason = ''Invalid passenger key format: '' @ render originalKey\<rparr>]\<rparr>
      | Some standardizedKey \<Rightarrow>
          if standardizedKey \<in> set (map fst (passengerMap st)) then
            st\<lparr>toDirty := toDirty st @
                 [\<lparr>row = r, reason = ''Duplicate passenger key: '' @ standardizedKey\<rparr>]\<rparr>
          else
            st\<lparr>passengerMap := passengerMap st @
                 [(standardizedKey,
                   \<lparr>rowNumber = i + 1, originalKey = originalKey,
                    data = paxRecord standardizedKey r\<rparr>)]\<rparr>)"

definition paxStep2 :: "raw_row list \<Rightarrow> pax_state" where
  "paxStep2 rawRows =
     foldl paxRowStep \<lparr>passengerMap = [], toDirty = []\<rparr> (zip [0 ..< length rawRows] rawRows)"

definition uniquePassengers :: "pax_state \<Rightarrow> passenger list" where
  "uniquePassengers st = map (\<lambda>e. data (snd e)) (passengerMap st)"

text \<open>The standardized key the loop computes for a row: the row's deduplication key.\<close>

definition paxKey :: "raw_row \<Rightarrow> string option" where
  "paxKey r = standardizePassengerKey_pax (trimOpt (field r ''PassengerKey''))"

text \<open>The passenger file of the end-to-end scenario: its headers and its row, by key.\<close>

definition scenarioHeaders :: "string list" where
  "scenarioHeaders = [''PassengerKey'', ''FullName'', ''Email'', ''LoyaltyStatus'']"

definition scenarioRow :: "string \<Rightarrow> raw_row" where
  "scenarioRow key =
     [(''PassengerKey'', key), (''FullName'', ''Jane Doe''), (''Email'', []),
      (''LoyaltyStatus'', ''gold'')]"

section \<open>Amounts and sales rows\<close>

text \<open>
  A standardized amount is the number \<open>parseFloat(x.toFixed(2))\<close>, a double. The model
  gives it in hundredths where that is exact: \<open>Cents h\<close> stands for the double nearest to
  \<open>h / 100\<close>, for \<open>h\<close> of at most 15 digits, and different \<open>h\<close> are then different
  doubles. \<open>Inexact\<close> stands for a number the model does not compute: the text has more
  than two significant fraction digits (the digit \<open>toFixed\<close> rounds to depends on the
  binary value of the double) or more than 15 digits (doubles merge, and overflow).
\<close>

datatype amount = Cents int | Inexact

definition digitVal :: "char \<Rightarrow> int" where
  "digitVal c = of_char c - 48"

definition intOfDigits :: "string \<Rightarrow> int" where
  "intOfDigits ds = foldl (\<lambda>a c. 10 * a + digitVal c) 0 ds"

text \<open>
  \<open>parseFloat\<close> on text made of digits, dots and minus signs (what the stripping regular
  expressions leave): an optional leading minus, the run of digits, and, after one dot,
  the next run of digits; the rest of the text is ignored. No digit at all is \<open>NaN\<close>
  (\<open>None\<close>). The result is the sign, the integer digits and the fraction digits.
\<close>

definition parseFloat :: "string \<Rightarrow> (bool \<times> string \<times> string) option" where
  "parseFloat s =
     (let neg = startsWith s ''-'' \<and> s \<noteq> [];
          body = (if neg then tl s else s);
          ip = takeWhile isDigit body;
          rest = dropWhile isDigit body;
          fp = (if startsWith rest ''.'' \<and> rest \<noteq> [] then takeWhile isDigit (tl rest) else [])
      in if ip = [] \<and> fp = [] then None else Some (neg, ip, fp))"

text \<open>\<open>isNaN(num) ? 0.00 : parseFloat(num.toFixed(2))\<close>.\<close>

definition roundCents :: "(bool \<times> string \<times> string) option \<Rightarrow> amount" where
  "roundCents num =
     (case num of
        None \<Rightarrow> Cents 0
      | Some (neg, ip, fp) \<Rightarrow>
          (let fp' = rev (dropWhile (\<lambda>c. c = CHR ''0'') (rev fp)) in
           if length fp' > 2 then Inexact
           else (let h = intOfDigits ip * 100 + intOfDigits (take 2 (fp' @ ''00''))
                 in if h \<ge> 1000000000000000 then Inexact
                    else Cents (if neg then - h else h))))"

text \<open>
  \<open>SalesUploader.standardizeAmount\<close> (uploadAllSales.js). The argument is a cell or
  \<open>undefined\<close>; the number \<open>0\<close> that \<open>row.Taxes || 0\<close> passes is falsy like them and takes
  the same first branch.
\<close>

definition standardizeAmount :: "string option \<Rightarrow> amount" where
  "standardizeAmount amt =
     (if \<not> truthy amt then Cents 0
      else (let clean = filter (\<lambda>c. isDigit c \<or> c = CHR ''.'') (the amt)
            in roundCents (parseFloat clean)))"

text \<open>The closure \<open>standardize\<close> of \<open>processSalesData\<close> (smartFileProcessor).\<close>

definition standardize :: "string option \<Rightarrow> amount" where
  "standardize amt =
     roundCents (parseFloat
       (filter (\<lambda>c. isDigit c \<or> c = CHR ''.'' \<or> c = CHR ''-'') (render amt)))"

text \<open>
  \<open>parseInt(s)\<close> for the date key: white space, an optional sign, then decimal digits;
  \<open>None\<close> is \<open>NaN\<close>. (A text starting with \<open>0x\<close> would be read as hexadecimal; the date
  text \<open>YYYY-MM-DD\<close> with its dashes removed never does.)
\<close>

definition parseInt :: "string \<Rightarrow> int option" where
  "parseInt s0 =
     (let s = dropWhile isSpace s0;
          neg = startsWith s ''-'' \<and> s \<noteq> [];
          body = (if s \<noteq> [] \<and> (hd s = CHR ''-'' \<or> hd s = CHR ''+'') then tl s else s);
          ds = takeWhile isDigit body
      in if ds = [] then None
         else Some (if neg then - intOfDigits ds else intOfDigits ds))"

text \<open>
  A clean sales record. Its \<open>passenger_key\<close> is the field \<open>sale_passenger_key\<close> here,
  the plain name being the passenger record's.
\<close>

record sale =
  transaction_id :: string
  date_key :: "int option"
  sale_passenger_key :: string
  flight_key :: string
  ticket_price :: amount
  taxes :: amount
  baggage_fees :: amount
  total_amount :: amount
  sales_source :: string

text \<open>
  What a remote write carries: a raw row or a clean record. A quarantine entry carries
  one as \<open>original_data\<close>: the raw row, or the clean record that failed later. An entry of \<open>dirty_data\<close> is \<open>source_table\<close>, \<open>original_data\<close> and
  \<open>error_reason\<close>; the time stamp some writers add is left out.
\<close>

text \<open>A clean airport record of uploadAirports.js.\<close>

record airport =
  airport_key :: string
  airport_name :: "string option"
  city :: "string option"
  country :: string

datatype payload =
  RowData raw_row | SaleData sale | PassengerData passenger | AirportData airport

record dirty =
  source_table :: string
  original_data :: payload
  error_reason :: string

text \<open>The synthesized transaction ID of a row in \<open>processSalesFile\<close>.\<close>

definition synthTransactionId :: "string \<Rightarrow> raw_row \<Rightarrow> string" where
  "synthTransactionId srcType r =
     (let originalTransactionId = trimOpt (field r ''TransactionID'');
          numbers = (case originalTransactionId of
                       None \<Rightarrow> ''0''
                     | Some t \<Rightarrow> if digitsOnly t = [] then ''0'' else digitsOnly t)
      in (if srcType = ''travel_agency'' then ''TA'' else ''CO'') @ padStart0 6 numbers)"

record sales_file =
  sales :: "sale list"
  dirtyRows :: "dirty list"
  seenTransactionIds :: "string set"

definition pushDirtyRow :: "string \<Rightarrow> raw_row \<Rightarrow> string \<Rightarrow> sales_file \<Rightarrow> sales_file" where
  "pushDirtyRow srcType r why st =
     st\<lparr>dirtyRows := dirtyRows st @
          [\<lparr>source_table = srcType, original_data = RowData r, error_reason = why\<rparr>]\<rparr>"

text \<open>
  The \<open>'data'\<close> handler of \<open>processSalesFile\<close>, one row. \<open>standardizeDate\<close> wraps the
  JavaScript \<open>Date\<close> parser and is a parameter: it answers the \<open>YYYY-MM-DD\<close> text or
  \<open>null\<close>. With cells that are strings or undefined nothing in the handler throws, so
  its \<open>catch\<close> branch is never taken.
\<close>

definition salesRowStep ::
  "(string option \<Rightarrow> string option) \<Rightarrow> string \<Rightarrow> sales_file \<Rightarrow> raw_row \<Rightarrow> sales_file" where
  "salesRowStep standardizeDate srcType st r =
     (let transactionId = synthTransactionId srcType r in
      if transactionId \<in> seenTransactionIds st then
        pushDirtyRow srcType r (''Duplicate transaction ID within file: '' @ transactionId) st
      else
        (let st1 = st\<lparr>seenTransactionIds := insert transactionId (seenTransactionIds st)\<rparr> in
         case standardizePassengerKey (orElse (field r ''PassengerID'') (field r ''PassengerKey'')) of
           None \<Rightarrow> pushDirtyRow srcType r ''Invalid passenger key'' st1
         | Some passengerKey \<Rightarrow>
            (let flightKey = orElse (field r ''FlightID'') (field r ''FlightKey'') in
             if \<not> truthy flightKey then pushDirtyRow srcType r ''Missing flight key'' st1
             else
              (let standardizedDate =
                     standardizeDate (orElse (field r ''TransactionDate'') (field r ''DateKey'')) in
               if \<not> truthy standardizedDate then pushDirtyRow srcType r ''Invalid date'' st1
               else if \<not> truthy (field r ''TicketPrice'') \<and> field r ''TicketPrice'' \<noteq> Some ''0''
               then pushDirtyRow srcType r ''Missing ticket price'' st1
               else
                 st1\<lparr>sales := sales st1 @
                   [\<lparr>transaction_id = transactionId,
                     date_key = parseInt (filter (\<lambda>c. c \<noteq> CHR ''-'') (the standardizedDate)),
                     sale_passenger_key = passengerKey,
                     flight_key = the flightKey,
                     ticket_price = standardizeAmount (field r ''TicketPrice''),
                     taxes = standardizeAmount (orElse (field r ''Taxes'') None),
                     baggage_fees = standardizeAmount (orElse (field r ''BaggageFees'') None),
                     total_amount = standardizeAmount (field r ''TotalAmount''),
                     sales_source = srcType\<rparr>]\<rparr>))))"

definition processSalesFile ::
  "(string option \<Rightarrow> string option) \<Rightarrow> raw_row list \<Rightarrow> string \<Rightarrow> sales_file" where
  "processSalesFile standardizeDate rows srcType =
     foldl (salesRowStep standardizeDate srcType)
       \<lparr>sales = [], dirtyRows = [], seenTransactionIds = {}\<rparr> rows"

section \<open>Deduplication across the sales files (uploadAllSales)\<close>

record dedup =
  seenIds :: "string set"
  finalSales :: "sale list"
  crossFileDuplicates :: "dirty list"

definition crossFileDuplicate :: "sale \<Rightarrow> dirty" where
  "crossFileDuplicate s =
     \<lparr>source_table = sales_source s, original_data = SaleData s,
      error_reason = ''Duplicate transaction ID across files: '' @ transaction_id s\<rparr>"

definition dedupStep :: "dedup \<Rightarrow> sale \<Rightarrow> dedup" where
  "dedupStep st s =
     (if transaction_id s \<in> seenIds st then
        st\<lparr>crossFileDuplicates := crossFileDuplicates st @ [crossFileDuplicate s]\<rparr>
      else
        st\<lparr>seenIds := insert (transaction_id s) (seenIds st),
           finalSales := finalSales st @ [s]\<rparr>)"

definition dedupSales :: "sale list \<Rightarrow> dedup" where
  "dedupSales allSales =
     foldl dedupStep \<lparr>seenIds = {}, finalSales = [], crossFileDuplicates = []\<rparr> allSales"

section \<open>The airline processor (smartFileProcessor)\<close>

record airline =
  airline_key :: "string option"
  airline_name :: "string option"
  alliance :: "string option"

text \<open>\<open>processAirlineData\<close>: map, then keep the records whose key is truthy. \<open>null\<close> and
  \<open>undefined\<close> are both \<open>None\<close>.\<close>

definition airlineOf :: "raw_row \<Rightarrow> airline" where
  "airlineOf r =
     \<lparr>airline_key = map_option toUpperCase (trimOpt (field r ''AirlineKey'')),
      airline_name = trimOpt (field r ''AirlineName''),
      alliance = (if trimOpt (field r ''Alliance'') = Some ''N/A'' then None
                  else trimOpt (field r ''Alliance''))\<rparr>"

definition processAirlineData :: "raw_row list \<Rightarrow> airline list \<times> reject list" where
  "processAirlineData rows = (filter (\<lambda>a. truthy (airline_key a)) (map airlineOf rows), [])"

section \<open>The remote store and the load engines\<close>

text \<open>
  The Supabase client is outside the program. A call either resolves without an error,
  resolves with an error object (\<open>code\<close>, \<open>message\<close>), or rejects, which \<open>await\<close> turns
  into a thrown exception. The store is a parameter: its reply to a call may depend on
  every call made before. The calls are kept in issue order, so a theorem can say which
  calls were made; the local backup file is the list of the lines appended to it.
\<close>

datatype sberror = SbError (errCode: string) (errMessage: string)

datatype reply = Ok | Failed sberror | Thrown string

datatype call =
    Upsert string string "payload list"
  | UpsertOne string string payload
  | Insert string "payload list"
  | InsertOne string payload
  | InsertDirty "dirty list"
  | InsertDirtyOne dirty

type_synonym store = "call list \<Rightarrow> call \<Rightarrow> reply"

record world =
  calls :: "call list"
  localFile :: "dirty list list"

definition remote :: "store \<Rightarrow> 'a world_scheme \<Rightarrow> call \<Rightarrow> reply \<times> 'a world_scheme" where
  "remote st w c = (st (calls w) c, w\<lparr>calls := calls w @ [c]\<rparr>)"

text \<open>\<open>e.code === '23505' || e.message.includes('duplicate')\<close>.\<close>

definition isConflict :: "sberror \<Rightarrow> bool" where
  "isConflict e = (errCode e = ''23505'' \<or> str_includes (errMessage e) ''duplicate'')"

text \<open>
  \<open>for (i = 0; i < xs.length; i += n) xs.slice(i, i + n)\<close>: the batches, in order. The
  batch sizes of the program are the constants 100 and 20.
\<close>

function batchesOf :: "nat \<Rightarrow> 'a list \<Rightarrow> 'a list list" where
  "batchesOf n xs = (if n = 0 \<or> xs = [] then [] else take n xs # batchesOf n (drop n xs))"
  by pat_completeness auto
termination
  by (relation "measure (\<lambda>(n, xs). length xs)") auto

declare batchesOf.simps [simp del]

subsection \<open>uploadAllSales\<close>

record sales_run = world +
  uploaded :: nat
  errors :: nat
  skippedDuplicates :: nat
  allDirty :: "dirty list"
  dirtySaved :: nat

definition alreadyExistsEntry :: "sale \<Rightarrow> dirty" where
  "alreadyExistsEntry s =
     \<lparr>source_table = sales_source s, original_data = SaleData s,
      error_reason = ''Transaction ID already exists in database: '' @ transaction_id s\<rparr>"

definition uploadFailedEntry :: "sale \<Rightarrow> sberror \<Rightarrow> dirty" where
  "uploadFailedEntry s e =
     \<lparr>source_table = sales_source s, original_data = SaleData s,
      error_reason = ''Upload failed: '' @ errMessage e\<rparr>"

text \<open>The body of \<open>for (const sale of batch)\<close>: one individual upsert.\<close>

definition uploadOne :: "store \<Rightarrow> sales_run \<Rightarrow> sale \<Rightarrow> sales_run" where
  "uploadOne st run s =
     (case remote st run (UpsertOne ''fact_sales'' ''transaction_id'' (SaleData s)) of
        (Failed singleError, run1) \<Rightarrow>
          if isConflict singleError then
            run1\<lparr>skippedDuplicates := skippedDuplicates run1 + 1,
                 allDirty := allDirty run1 @ [alreadyExistsEntry s]\<rparr>
          else
            run1\<lparr>errors := errors run1 + 1,
                 allDirty := allDirty run1 @ [uploadFailedEntry s singleError]\<rparr>
      | (Ok, run1) \<Rightarrow> run1\<lparr>uploaded := uploaded run1 + 1\<rparr>
      | (Thrown singleErr, run1) \<Rightarrow> run1\<lparr>errors := errors run1 + 1\<rparr>)"

text \<open>The body of the batch loop: the batch upsert, then the fallback or the \<open>catch\<close>.\<close>

definition uploadBatch :: "store \<Rightarrow> sales_run \<Rightarrow> sale list \<Rightarrow> sales_run" where
  "uploadBatch st run batch =
     (case remote st run (Upsert ''fact_sales'' ''transaction_id'' (map SaleData batch)) of
        (Failed error, run1) \<Rightarrow> foldl (uploadOne st) run1 batch
      | (Ok, run1) \<Rightarrow> run1\<lparr>uploaded := uploaded run1 + length batch\<rparr>
      | (Thrown batchError, run1) \<Rightarrow> run1\<lparr>errors := errors run1 + length batch\<rparr>)"

text \<open>
  How a run ends: \<open>Completed\<close>, or \<open>Fatal\<close> when an exception leaves \<open>uploadAllSales\<close>
  (the caller logs it and exits with status 1).
\<close>

datatype run_end = Completed sales_run | Fatal string sales_run

text \<open>
  Saving one batch of \<open>allDirty\<close>. \<open>appendFileSync\<close> is a parameter: given the lines
  already in the file and the new line it succeeds (\<open>None\<close>) or throws (\<open>Some\<close> message).
  Neither the insert nor the append is inside a \<open>try\<close>.
\<close>

definition saveDirtyBatch ::
  "store \<Rightarrow> (dirty list list \<Rightarrow> dirty list \<Rightarrow> string option) \<Rightarrow> sales_run \<Rightarrow> dirty list \<Rightarrow> run_end"
where
  "saveDirtyBatch st appendFileSync run batch =
     (case remote st run (InsertDirty batch) of
        (Thrown m, run1) \<Rightarrow> Fatal m run1
      | (Failed error, run1) \<Rightarrow>
          (case appendFileSync (localFile run1) batch of
             Some m \<Rightarrow> Fatal m run1
           | None \<Rightarrow> Completed (run1\<lparr>localFile := localFile run1 @ [batch]\<rparr>))
      | (Ok, run1) \<Rightarrow> Completed (run1\<lparr>dirtySaved := dirtySaved run1 + length batch\<rparr>))"

fun saveDirtyLoop ::
  "store \<Rightarrow> (dirty list list \<Rightarrow> dirty list \<Rightarrow> string option) \<Rightarrow> sales_run \<Rightarrow> dirty list list \<Rightarrow> run_end"
where
  "saveDirtyLoop st appendFileSync run [] = Completed run"
| "saveDirtyLoop st appendFileSync run (b # bs) =
     (case saveDirtyBatch st appendFileSync run b of
        Fatal m run1 \<Rightarrow> Fatal m run1
      | Completed run1 \<Rightarrow> saveDirtyLoop st appendFileSync run1 bs)"

text \<open>
  \<open>uploadAllSales\<close>, from the rows of the two files on (reading them is outside the
  model). \<open>w0\<close> is the world at the start: the calls made so far and the backup file.
\<close>

definition uploadAllSales ::
  "(string option \<Rightarrow> string option) \<Rightarrow> store \<Rightarrow> (dirty list list \<Rightarrow> dirty list \<Rightarrow> string option) \<Rightarrow>
   world \<Rightarrow> raw_row list \<Rightarrow> raw_row list \<Rightarrow> run_end" where
  "uploadAllSales standardizeDate st appendFileSync w0 travelRows corporateRows =
     (let travel = processSalesFile standardizeDate travelRows ''travel_agency'';
          corporate = processSalesFile standardizeDate corporateRows ''corporate'';
          allSales = sales travel @ sales corporate;
          d = dedupSales allSales;
          run0 = \<lparr>calls = calls w0, localFile = localFile w0,
                  uploaded = 0, errors = 0, skippedDuplicates = 0,
                  allDirty = dirtyRows travel @ dirtyRows corporate @ crossFileDuplicates d,
                  dirtySaved = 0\<rparr>;
          run1 = foldl (uploadBatch st) run0 (batchesOf 100 (finalSales d))
      in saveDirtyLoop st appendFileSync run1 (batchesOf 100 (allDirty run1)))"

subsection \<open>uploadPassengers\<close>

record pax_run = world +
  uploaded_pax :: nat
  errors_pax :: nat
  alreadyExist :: nat
  failedPassengers :: "string list"

text \<open>
  \<open>saveToDirtyTable\<close>: one insert into \<open>dirty_data\<close>; an error or an exception is logged
  and answered with \<open>false\<close>. Every caller drops the answer.
\<close>

definition saveToDirtyTable ::
  "store \<Rightarrow> 'a world_scheme \<Rightarrow> payload \<Rightarrow> string \<Rightarrow> bool \<times> 'a world_scheme" where
  "saveToDirtyTable st w rowData errorReason =
     (case remote st w (InsertDirtyOne \<lparr>source_table = ''passengers'', original_data = rowData,
                                         error_reason = errorReason\<rparr>) of
        (Ok, w1) \<Rightarrow> (True, w1)
      | (Failed error, w1) \<Rightarrow> (False, w1)
      | (Thrown err, w1) \<Rightarrow> (False, w1))"

definition failPassenger :: "store \<Rightarrow> pax_run \<Rightarrow> passenger \<Rightarrow> string \<Rightarrow> pax_run" where
  "failPassenger st run p why =
     (let run1 = snd (saveToDirtyTable st run (PassengerData p) why)
      in run1\<lparr>failedPassengers := failedPassengers run1 @ [passenger_key p]\<rparr>)"

definition paxUploadOne :: "store \<Rightarrow> pax_run \<Rightarrow> passenger \<Rightarrow> pax_run" where
  "paxUploadOne st run p =
     (case remote st run (InsertOne ''dim_passenger'' (PassengerData p)) of
        (Failed singleError, run1) \<Rightarrow>
          if isConflict singleError then run1\<lparr>alreadyExist := alreadyExist run1 + 1\<rparr>
          else (let run2 = failPassenger st run1 p (''Upload failed: '' @ errMessage singleError)
                in run2\<lparr>errors_pax := errors_pax run2 + 1\<rparr>)
      | (Ok, run1) \<Rightarrow> run1\<lparr>uploaded_pax := uploaded_pax run1 + 1\<rparr>
      | (Thrown singleErr, run1) \<Rightarrow>
          (let run2 = failPassenger st run1 p (''Upload error: '' @ singleErr)
           in run2\<lparr>errors_pax := errors_pax run2 + 1\<rparr>))"

definition paxUploadBatch :: "store \<Rightarrow> pax_run \<Rightarrow> passenger list \<Rightarrow> pax_run" where
  "paxUploadBatch st run batch =
     (case remote st run (Insert ''dim_passenger'' (map PassengerData batch)) of
        (Failed error, run1) \<Rightarrow>
          if isConflict error then foldl (paxUploadOne st) run1 batch
          else (let run2 = foldl (\<lambda>r p. failPassenger st r p
                                     (''Batch upload failed: '' @ errMessage error)) run1 batch
                in run2\<lparr>errors_pax := errors_pax run2 + length batch\<rparr>)
      | (Ok, run1) \<Rightarrow> run1\<lparr>uploaded_pax := uploaded_pax run1 + length batch\<rparr>
      | (Thrown batchError, run1) \<Rightarrow> run1\<lparr>errors_pax := errors_pax run1 + length batch\<rparr>)"

text \<open>
  \<open>uploadPassengers\<close> from the rows on: step 2 with its \<open>saveToDirtyTable\<close> calls, then the
  upload in batches of 20. The closing count queries only read and are left out.
\<close>

definition uploadPassengers :: "store \<Rightarrow> world \<Rightarrow> raw_row list \<Rightarrow> pax_run" where
  "uploadPassengers st w0 rawRows =
     (let s2 = paxStep2 rawRows;
          run0 = \<lparr>calls = calls w0, localFile = localFile w0,
                  uploaded_pax = 0, errors_pax = 0, alreadyExist = 0, failedPassengers = []\<rparr>;
          run1 = foldl (\<lambda>r d. snd (saveToDirtyTable st r (RowData (row d)) (reason d)))
                   run0 (toDirty s2)
      in foldl (paxUploadBatch st) run1 (batchesOf 20 (uniquePassengers s2)))"

subsection \<open>uploadAirports\<close>

text \<open>\<open>standardizeCountry\<close> of uploadAirports.js, with its table.\<close>

definition countryMap :: "(string \<times> string) list" where
  "countryMap =
     [(''US'', ''United States''), (''USA'', ''United States''),
      (''UNITED STATES'', ''United States''),
      (''UNITED STATES OF AMERICA'', ''United States''),
      (''U.S.A.'', ''United States''), (''U.S.'', ''United States''),
      (''UK'', ''United Kingdom''), (''UNITED KINGDOM'', ''United Kingdom''),
      (''GREAT BRITAIN'', ''United Kingdom''), (''ENGLAND'', ''United Kingdom''),
      (''UAE'', ''United Arab Emirates''),
      (''UNITED ARAB EMIRATES'', ''United Arab Emirates''),
      (''JAPAN'', ''Japan''), (''CANADA'', ''Canada''), (''AUSTRALIA'', ''Australia''),
      (''GERMANY'', ''Germany''), (''FRANCE'', ''France''), (''MEXICO'', ''Mexico''),
      (''CHINA'', ''China''), (''BRAZIL'', ''Brazil''), (''INDIA'', ''India'')]"

definition standardizeCountry_airports :: "string option \<Rightarrow> string" where
  "standardizeCountry_airports c =
     (if \<not> truthy c then ''Unknown''
      else (let countryUpper = trim (toUpperCase (the c)) in
        case map_of countryMap countryUpper of
          Some name \<Rightarrow> name
        | None \<Rightarrow> take 1 countryUpper @ toLowerCase (drop 1 countryUpper)))"

text \<open>
  The \<open>'data'\<close> handler of \<open>uploadAirports\<close>, one row. A row with an invalid key and a
  row whose key was seen before are skipped with a console message; the handler writes
  nowhere else.
\<close>

record airports_read =
  airports :: "airport list"
  airportSet :: "string set"

definition airportRowStep :: "airports_read \<Rightarrow> raw_row \<Rightarrow> airports_read" where
  "airportRowStep st r =
     (let airportKey = map_option toUpperCase (trimOpt (field r ''AirportKey'')) in
      if \<not> truthy airportKey \<or> length (the airportKey) \<noteq> 3 then st
      else if the airportKey \<in> airportSet st then st
      else
        st\<lparr>airportSet := insert (the airportKey) (airportSet st),
           airports := airports st @
             [\<lparr>airport_key = the airportKey,
               airport_name = trimOpt (field r ''AirportName''),
               city = trimOpt (field r ''City''),
               country = standardizeCountry_airports (field r ''Country'')\<rparr>]\<rparr>)"

record airports_run = world +
  successCount :: nat
  errorCount :: nat

definition uploadAirportOne :: "store \<Rightarrow> airports_run \<Rightarrow> airport \<Rightarrow> airports_run" where
  "uploadAirportOne st run a =
     (case remote st run (Upsert ''dim_airport'' ''airport_key'' [AirportData a]) of
        (Failed error, run1) \<Rightarrow> run1\<lparr>errorCount := errorCount run1 + 1\<rparr>
      | (Ok, run1) \<Rightarrow> run1\<lparr>successCount := successCount run1 + 1\<rparr>
      | (Thrown err, run1) \<Rightarrow> run1\<lparr>errorCount := errorCount run1 + 1\<rparr>)"

text \<open>\<open>uploadAirports\<close> from the rows on: the read loop, then one upsert per airport.\<close>

definition uploadAirports :: "store \<Rightarrow> world \<Rightarrow> raw_row list \<Rightarrow> airports_run" where
  "uploadAirports st w0 rows =
     (let read = foldl airportRowStep \<lparr>airports = [], airportSet = {}\<rparr> rows;
          run0 = \<lparr>calls = calls w0, localFile = localFile w0,
                  successCount = 0, errorCount = 0\<rparr>
      in if airports read = [] then run0
         else foldl (uploadAirportOne st) run0 (airports read))"

subsection \<open>saveDirtyData (smartFileProcessor)\<close>

text \<open>
  One insert of all the records; the resolved value is not looked at. \<open>Inl\<close> is the
  exception of a rejected call, which \<open>processFile\<close> catches and reports.
\<close>

definition saveDirtyData :: "store \<Rightarrow> world \<Rightarrow> reject list \<Rightarrow> string \<Rightarrow> string + world" where
  "saveDirtyData st w dirtyRows' sourceTable =
     (let dirtyRecords =
            map (\<lambda>item. \<lparr>source_table = sourceTable, original_data = RowData (row item),
                         error_reason = reason item\<rparr>) dirtyRows'
      in if dirtyRecords \<noteq> [] then
           (case remote st w (InsertDirty dirtyRecords) of
              (Thrown m, w1) \<Rightarrow> Inl m
            | (Failed error, w1) \<Rightarrow> Inr w1
            | (Ok, w1) \<Rightarrow> Inr w1)
         else Inr w)"

section \<open>Sample inputs\<close>

text \<open>A date parser that knows one date, a valid travel-agency row and the sale it gives.\<close>

definition sampleDate :: "string option \<Rightarrow> string option" where
  "sampleDate d = (if d = Some ''2024-01-15'' then Some ''2024-01-15'' else None)"

definition sampleRow :: "string \<Rightarrow> string \<Rightarrow> raw_row" where
  "sampleRow transId passengerId =
     [(''TransactionID'', transId), (''TransactionDate'', ''2024-01-15''),
      (''PassengerID'', passengerId), (''FlightID'', ''F100''), (''TicketPrice'', ''100.50'')]"

definition sampleSale :: "string \<Rightarrow> sale" where
  "sampleSale transactionId =
     \<lparr>transaction_id = transactionId, date_key = Some 20240115,
      sale_passenger_key = ''P123'', flight_key = ''F100'',
      ticket_price = Cents 10050, taxes = Cents 0, baggage_fees = Cents 0,
      total_amount = Cents 0, sales_source = ''travel_agency''\<rparr>"

definition samplePassenger :: passenger where
  "samplePassenger =
     \<lparr>passenger_key = ''P001'', full_name = Some ''Jane Doe'',
      email = ''jane.doe@example.com'', loyalty_status = ''Gold''\<rparr>"

text \<open>A store whose batch writes reject (throw); every other call succeeds.\<close>

definition throwingStore :: store where
  "throwingStore h c =
     (case c of
        Upsert t k rows \<Rightarrow> Thrown ''fetch failed''
      | Insert t rows \<Rightarrow> Thrown ''fetch failed''
      | _ \<Rightarrow> Ok)"

text \<open>A store that answers every call with the same error object.\<close>

definition failingStore :: "sberror \<Rightarrow> store" where
  "failingStore e h c = Failed e"

text \<open>A store whose batch writes fail with a time-out and whose other calls succeed.\<close>

definition batchFailingStore :: store where
  "batchFailingStore h c =
     (case c of
        Upsert t k rows \<Rightarrow> Failed (SbError ''57014'' ''statement timeout'')
      | Insert t rows \<Rightarrow> Failed (SbError ''57014'' ''statement timeout'')
      | _ \<Rightarrow> Ok)"

definition emptyWorld :: world where
  "emptyWorld = \<lparr>calls = [], localFile = []\<rparr>"

definition appendWorks :: "dirty list list \<Rightarrow> dirty list \<Rightarrow> string option" where
  "appendWorks file line = None"

definition emptyPaxRun :: pax_run where
  "emptyPaxRun =
     \<lparr>calls = [], localFile = [], uploaded_pax = 0, errors_pax = 0, alreadyExist = 0,
      failedPassengers = []\<rparr>"

definition emptySalesRun :: sales_run where
  "emptySalesRun =
     \<lparr>calls = [], localFile = [], uploaded = 0, errors = 0, skippedDuplicates = 0,
      allDirty = [], dirtySaved = 0\<rparr>"

text \<open>A travel-agency row with an invalid passenger key, and its quarantine entry.\<close>

definition badKeyRow :: raw_row where
  "badKeyRow = sampleRow ''7'' ''X9''"

definition badKeyEntry :: dirty where
  "badKeyEntry =
     \<lparr>source_table = ''travel_agency'', original_data = RowData badKeyRow,
      error_reason = ''Invalid passenger key''\<rparr>"

definition unavailable :: sberror where
  "unavailable = SbError ''503'' ''service unavailable''"

definition uniqueViolation :: sberror where
  "uniqueViolation = SbError ''23505'' ''duplicate key value violates unique constraint''"

text \<open>
  A store whose batch upsert times out; on its own, sale \<open>TA000001\<close> then meets a unique
  violation, sale \<open>TA000002\<close> an unavailable service, and every other call succeeds.
\<close>

definition mixedStore :: store where
  "mixedStore h c =
     (case c of
        Upsert t k rows \<Rightarrow> Failed (SbError ''57014'' ''statement timeout'')
      | UpsertOne t k p \<Rightarrow>
          (if p = SaleData (sampleSale ''TA000001'') then Failed uniqueViolation
           else if p = SaleData (sampleSale ''TA000002'') then Failed unavailable
           else Ok)
      | _ \<Rightarrow> Ok)"

text \<open>A store that accepts every call, and a disk that is full.\<close>

definition acceptingStore :: store where
  "acceptingStore h c = Ok"

definition appendFails :: "dirty list list \<Rightarrow> dirty list \<Rightarrow> string option" where
  "appendFails file line = Some ''ENOSPC: no space left on device''"

definition airportRow :: "string \<Rightarrow> string \<Rightarrow> raw_row" where
  "airportRow key name =
     [(''AirportKey'', key), (''AirportName'', name), (''City'', ''New York''),
      (''Country'', ''usa'')]"

section \<open>Notions of the specification\<close>

text \<open>
  The store's reply to the individual upsert of the record at position \<open>k\<close> of a batch,
  when \<open>h\<close> are the calls made before the loop over the batch: the loop has by then made
  one individual upsert for each earlier record.
\<close>

definition singleReply :: "store \<Rightarrow> call list \<Rightarrow> sale list \<Rightarrow> nat \<Rightarrow> reply" where
  "singleReply st h batch k =
     st (h @ map (\<lambda>s. UpsertOne ''fact_sales'' ''transaction_id'' (SaleData s)) (take k batch))
        (UpsertOne ''fact_sales'' ''transaction_id'' (SaleData (batch ! k)))"

text \<open>A returned error that signals a conflict; a failure of any other kind.\<close>

definition conflictReply :: "reply \<Rightarrow> bool" where
  "conflictReply r = (case r of Failed e \<Rightarrow> isConflict e | _ \<Rightarrow> False)"

definition otherFailure :: "reply \<Rightarrow> bool" where
  "otherFailure r = (case r of Failed e \<Rightarrow> \<not> isConflict e | Thrown m \<Rightarrow> True | Ok \<Rightarrow> False)"

text \<open>
  "A digit sequence of length \<open>n\<close>", read as a run: some \<open>n\<close> adjacent characters of the
  text are all digits.
\<close>

fun spec_digitRun :: "nat \<Rightarrow> string \<Rightarrow> bool" where
  "spec_digitRun n [] = (n = 0)"
| "spec_digitRun n (c # cs) =
     ((n \<le> length (c # cs) \<and> list_all isDigit (take n (c # cs))) \<or> spec_digitRun n cs)"

text \<open>
  The store accepted a call: the call is in the list of calls made, and the store's reply
  to it, given the calls before it, was \<open>Ok\<close>.
\<close>

definition acknowledged :: "store \<Rightarrow> call list \<Rightarrow> call \<Rightarrow> bool" where
  "acknowledged st tr c = list_ex (\<lambda>k. tr ! k = c \<and> st (take k tr) c = Ok) [0..<length tr]"

section \<open>Properties\<close>

subsection \<open>The classifier\<close>

text \<open>
  C1. A header list that holds, without regard to case, the required columns of exactly
  one signature is classified as that signature. The code fails this on the headers of a
  corporate sales file as the registry itself spells them: only the corporate signature
  is satisfied, and \<open>detectFileType\<close> answers \<open>passengers\<close>, because the exact stage
  compares the lower-cased column with the header in its original case and the substring
  fallback then finds \<open>passenger\<close> in \<open>PassengerKey\<close>.
\<close>

theorem detectFileType_corporate_headers:
  "spec_satisfied [''TransactionID'', ''DateKey'', ''PassengerKey'', ''FlightKey'', ''TicketPrice'']
     = [''corporate_sales''] \<and>
   detectFileType [''TransactionID'', ''DateKey'', ''PassengerKey'', ''FlightKey'', ''TicketPrice'']
     = ''passengers''"
  by code_simp

subsection \<open>Passenger keys\<close>

lemma digitsOnly_dropWhile_space: "digitsOnly (dropWhile isSpace s) = digitsOnly s"
  by (induction s) (auto simp: digitsOnly_def isSpace_def isDigit_def)

lemma digitsOnly_rev: "digitsOnly (rev s) = rev (digitsOnly s)"
  by (simp add: digitsOnly_def rev_filter)

lemma digitsOnly_trim: "digitsOnly (trim s) = digitsOnly s"
  by (simp add: trim_def digitsOnly_rev digitsOnly_dropWhile_space)

lemma list_ex_isDigit: "list_ex isDigit s \<longleftrightarrow> digitsOnly s \<noteq> []"
  by (induction s) (auto simp: digitsOnly_def)

lemma length_sliceLast3: "3 \<le> length s \<Longrightarrow> length (sliceLast3 s) = 3"
  by (simp add: sliceLast3_def)

lemma padStart0_sliceLast3: "3 \<le> length s \<Longrightarrow> padStart0 3 (sliceLast3 s) = sliceLast3 s"
  by (simp add: padStart0_def length_sliceLast3)

lemma digits_sliceLast3: "list_all isDigit (sliceLast3 (digitsOnly s))"
  by (auto simp: sliceLast3_def digitsOnly_def list_all_iff dest: in_set_dropD)

lemma digitsOnly_all: "list_all isDigit d \<Longrightarrow> digitsOnly d = d"
  by (induction d) (auto simp: digitsOnly_def)

lemma isDigit_P: "\<not> isDigit CHR ''P''"
  by (simp add: isDigit_def)

lemma sliceLast3_id: "length d = 3 \<Longrightarrow> sliceLast3 d = d"
  by (simp add: sliceLast3_def)

lemma spk_accept:
  assumes "str_includes k ''P''" "3 \<le> length (digitsOnly k)"
  shows "standardizePassengerKey (Some k) = Some (CHR ''P'' # sliceLast3 (digitsOnly k))"
proof -
  have "k \<noteq> []" using assms(2) by (auto simp: digitsOnly_def)
  then show ?thesis using assms
    by (simp add: standardizePassengerKey_def Let_def padStart0_sliceLast3)
qed

lemma spk_reject_digits:
  "length (digitsOnly k) < 3 \<Longrightarrow> standardizePassengerKey (Some k) = None"
  by (simp add: standardizePassengerKey_def Let_def)

lemma spk_reject_noP:
  "\<not> str_includes k ''P'' \<Longrightarrow> standardizePassengerKey (Some k) = None"
  by (simp add: standardizePassengerKey_def Let_def)

lemma spk_pax_accept:
  assumes "3 \<le> length (digitsOnly k)"
  shows "standardizePassengerKey_pax (Some k) = Some (CHR ''P'' # sliceLast3 (digitsOnly k))"
proof -
  have "k \<noteq> []" using assms by (auto simp: digitsOnly_def)
  moreover have "list_ex isDigit (trim k)"
    using assms by (auto simp: list_ex_isDigit digitsOnly_trim)
  ultimately show ?thesis using assms
    by (simp add: standardizePassengerKey_pax_def Let_def padStart0_sliceLast3 digitsOnly_trim)
qed

lemma spk_pax_reject:
  "length (digitsOnly k) < 3 \<Longrightarrow> standardizePassengerKey_pax (Some k) = None"
  by (simp add: standardizePassengerKey_pax_def Let_def digitsOnly_trim)

lemma spk_shape:
  assumes "standardizePassengerKey (Some k) = Some c"
  shows "str_includes k ''P'' \<and> 3 \<le> length (digitsOnly k)"
  using assms by (auto simp: standardizePassengerKey_def Let_def split: if_splits)

lemma spk_pax_shape:
  assumes "standardizePassengerKey_pax (Some k) = Some c"
  shows "3 \<le> length (digitsOnly k)"
  using assms by (auto simp: standardizePassengerKey_pax_def Let_def digitsOnly_trim split: if_splits)

lemma canonical_fixed:
  assumes "3 \<le> length (digitsOnly k)" and c: "c = CHR ''P'' # sliceLast3 (digitsOnly k)"
  shows "str_includes c ''P''" "digitsOnly c = sliceLast3 (digitsOnly k)"
    "sliceLast3 (digitsOnly c) = sliceLast3 (digitsOnly k)"
proof -
  let ?d = "sliceLast3 (digitsOnly k)"
  show "str_includes c ''P''" by (simp add: c)
  have "digitsOnly ?d = ?d" by (rule digitsOnly_all[OF digits_sliceLast3])
  then show d: "digitsOnly c = ?d" by (simp add: c digitsOnly_def isDigit_P)
  show "sliceLast3 (digitsOnly c) = ?d"
    by (simp add: d sliceLast3_id length_sliceLast3[OF assms(1)])
qed

text \<open>
  C3, as the code has it. Passenger-key standardization rejects an absent key and every
  key with fewer than three digits in all (the digits need not be adjacent); the
  smartFileProcessor and uploadAllSales version also rejects every key without the letter
  \<open>P\<close>. For a key with at least three digits (and, in that version, a \<open>P\<close>) the result is
  \<open>P\<close> followed by the key's last three digits, and standardizing a result again returns
  it unchanged.
\<close>

theorem standardizePassengerKey_amended:
  "standardizePassengerKey None = None \<and> standardizePassengerKey_pax None = None \<and>
   (length (digitsOnly k) < 3 \<longrightarrow>
      standardizePassengerKey (Some k) = None \<and> standardizePassengerKey_pax (Some k) = None) \<and>
   (\<not> str_includes k ''P'' \<longrightarrow> standardizePassengerKey (Some k) = None) \<and>
   (3 \<le> length (digitsOnly k) \<longrightarrow>
      length (sliceLast3 (digitsOnly k)) = 3 \<and> list_all isDigit (sliceLast3 (digitsOnly k)) \<and>
      standardizePassengerKey_pax (Some k) = Some (CHR ''P'' # sliceLast3 (digitsOnly k)) \<and>
      (str_includes k ''P'' \<longrightarrow>
         standardizePassengerKey (Some k) = Some (CHR ''P'' # sliceLast3 (digitsOnly k)))) \<and>
   (standardizePassengerKey (Some k) = Some c \<longrightarrow> standardizePassengerKey (Some c) = Some c) \<and>
   (standardizePassengerKey_pax (Some k) = Some c \<longrightarrow>
      standardizePassengerKey_pax (Some c) = Some c)"
proof -
  have a: "standardizePassengerKey None = None" "standardizePassengerKey_pax None = None"
    by (simp_all add: standardizePassengerKey_def standardizePassengerKey_pax_def)
  have i1: "standardizePassengerKey (Some c) = Some c"
    if h: "standardizePassengerKey (Some k) = Some c"
  proof -
    have s: "str_includes k ''P''" "3 \<le> length (digitsOnly k)" using spk_shape[OF h] by auto
    have c: "c = CHR ''P'' # sliceLast3 (digitsOnly k)" using h spk_accept[OF s] by simp
    have l: "3 \<le> length (digitsOnly c)"
      using canonical_fixed(2)[OF s(2) c] length_sliceLast3[OF s(2)] by simp
    show ?thesis
      using spk_accept[OF canonical_fixed(1)[OF s(2) c] l] canonical_fixed(3)[OF s(2) c] c by simp
  qed
  have i2: "standardizePassengerKey_pax (Some c) = Some c"
    if h: "standardizePassengerKey_pax (Some k) = Some c"
  proof -
    have s: "3 \<le> length (digitsOnly k)" using spk_pax_shape[OF h] .
    have c: "c = CHR ''P'' # sliceLast3 (digitsOnly k)" using h spk_pax_accept[OF s] by simp
    have l: "3 \<le> length (digitsOnly c)"
      using canonical_fixed(2)[OF s c] length_sliceLast3[OF s] by simp
    show ?thesis
      using spk_pax_accept[OF l] canonical_fixed(3)[OF s c] c by simp
  qed
  show ?thesis
    using a i1 i2 spk_reject_digits spk_pax_reject spk_reject_noP spk_accept spk_pax_accept
      length_sliceLast3 digits_sliceLast3 by blast
qed

theorem standardizePassengerKey_amended_witness:
  "3 \<le> length (digitsOnly ''XP-1234'') \<and> str_includes ''XP-1234'' ''P'' \<and>
   standardizePassengerKey (Some ''XP-1234'') = Some ''P234'' \<and>
   standardizePassengerKey_pax (Some ''XP-1234'') = Some ''P234'' \<and>
   standardizePassengerKey (Some ''P234'') = Some ''P234'' \<and>
   standardizePassengerKey_pax (Some ''P234'') = Some ''P234'' \<and>
   length (digitsOnly ''P12'') < 3 \<and> standardizePassengerKey (Some ''P12'') = None \<and>
   standardizePassengerKey_pax (Some ''P12'') = None \<and>
   \<not> str_includes ''1234'' ''P'' \<and> standardizePassengerKey (Some ''1234'') = None"
proof -
  have h1: "3 \<le> length (digitsOnly ''XP-1234'')" by code_simp
  have h2: "str_includes ''XP-1234'' ''P''" by code_simp
  have h3: "sliceLast3 (digitsOnly ''XP-1234'') = ''234''" by code_simp
  have h4: "length (digitsOnly ''P12'') < 3" by code_simp
  have h5: "\<not> str_includes ''1234'' ''P''" by code_simp
  show ?thesis
    using h1 h2 h3 h4 h5
      standardizePassengerKey_amended[of "''XP-1234''" "''P234''"]
      standardizePassengerKey_amended[of "''P12''" "''P234''"]
      standardizePassengerKey_amended[of "''1234''" "''P234''"]
    by simp
qed

text \<open>
  C3 as stated fails in smartFileProcessor and uploadAllSales: the key \<open>123\<close> has three
  digits and is rejected, because it has no \<open>P\<close>. And a key is not rejected for lacking
  a run of three digits: \<open>P1a2b3\<close> has none and standardizes to \<open>P123\<close>.
\<close>

theorem standardizePassengerKey_three_digits_rejected:
  "3 \<le> length (digitsOnly ''123'') \<and> standardizePassengerKey (Some ''123'') = None \<and>
   \<not> spec_digitRun 3 ''P1a2b3'' \<and> standardizePassengerKey (Some ''P1a2b3'') = Some ''P123'' \<and>
   standardizePassengerKey_pax (Some ''P1a2b3'') = Some ''P123''"
  by code_simp

subsection \<open>The passenger scenario\<close>

text \<open>
  C4 as stated fails: the row with key \<open>P1\<close> yields no clean record in either pipeline,
  since the key has one digit.
\<close>

theorem scenario_P1_not_clean:
  "fst (processPassengerData [scenarioRow ''P1'']) = [] \<and>
   uniquePassengers (paxStep2 [scenarioRow ''P1'']) = []"
  by code_simp

text \<open>
  C4, as the code has it. The scenario's headers classify as the passenger entity. The
  row with key \<open>P1\<close> is quarantined for its key by \<open>processPassengerData\<close> and by
  \<open>uploadPassengers\<close>. With key \<open>P001\<close> the row is clean in both: \<open>uploadPassengers\<close>
  yields the record of the scenario, and \<open>processPassengerData\<close> a record with the
  scenario's key, name and email.
\<close>

theorem scenario_passenger_file:
  "detectFileType scenarioHeaders = ''passengers'' \<and>
   processPassengerData [scenarioRow ''P1''] =
     ([], [\<lparr>row = scenarioRow ''P1'', reason = ''Invalid passenger key''\<rparr>]) \<and>
   paxStep2 [scenarioRow ''P1''] =
     \<lparr>passengerMap = [],
      toDirty = [\<lparr>row = scenarioRow ''P1'',
                  reason = ''Invalid passenger key format: P1''\<rparr>]\<rparr> \<and>
   uniquePassengers (paxStep2 [scenarioRow ''P001'']) =
     [\<lparr>passenger_key = ''P001'', full_name = Some ''Jane Doe'',
       email = ''jane.doe@example.com'', loyalty_status = ''Gold''\<rparr>] \<and>
   toDirty (paxStep2 [scenarioRow ''P001'']) = [] \<and>
   map passenger_key (fst (processPassengerData [scenarioRow ''P001''])) = [''P001''] \<and>
   map full_name (fst (processPassengerData [scenarioRow ''P001''])) = [Some ''Jane Doe''] \<and>
   map email (fst (processPassengerData [scenarioRow ''P001''])) = [''jane.doe@example.com''] \<and>
   snd (processPassengerData [scenarioRow ''P001'']) = []"
  by code_simp

subsection \<open>The sales file processor\<close>

lemma pushDirtyRow_fields:
  "seenTransactionIds (pushDirtyRow t r w st) = seenTransactionIds st"
  "sales (pushDirtyRow t r w st) = sales st"
  "dirtyRows (pushDirtyRow t r w st) =
     dirtyRows st @ [\<lparr>source_table = t, original_data = RowData r, error_reason = w\<rparr>]"
  by (simp_all add: pushDirtyRow_def)

lemma salesRowStep_seen:
  "seenTransactionIds (salesRowStep sd t st r) =
     insert (synthTransactionId t r) (seenTransactionIds st)"
  by (auto simp: salesRowStep_def Let_def pushDirtyRow_fields split: option.splits)

lemma salesRowStep_dirty_grows:
  "\<exists>ds. dirtyRows (salesRowStep sd t st r) = dirtyRows st @ ds"
  by (auto simp: salesRowStep_def Let_def pushDirtyRow_fields split: option.splits)

lemma salesRows_seen:
  "seenTransactionIds (foldl (salesRowStep sd t) st rs) =
     seenTransactionIds st \<union> synthTransactionId t ` set rs"
  by (induction rs arbitrary: st) (auto simp: salesRowStep_seen)

lemma salesRows_dirty_grows:
  "\<exists>ds. dirtyRows (foldl (salesRowStep sd t) st rs) = dirtyRows st @ ds"
proof (induction rs arbitrary: st)
  case Nil
  show ?case by simp
next
  case (Cons r rs)
  obtain d1 where d1: "dirtyRows (salesRowStep sd t st r) = dirtyRows st @ d1"
    using salesRowStep_dirty_grows by blast
  obtain d2 where "dirtyRows (foldl (salesRowStep sd t) (salesRowStep sd t st r) rs)
      = dirtyRows (salesRowStep sd t st r) @ d2"
    using Cons.IH by blast
  then show ?case by (simp add: d1)
qed

lemma salesRowStep_duplicate:
  "synthTransactionId t r \<in> seenTransactionIds st \<Longrightarrow>
   salesRowStep sd t st r =
     pushDirtyRow t r (''Duplicate transaction ID within file: '' @ synthTransactionId t r) st"
  by (simp add: salesRowStep_def Let_def)

lemma processSalesFile_split:
  assumes "j < length rows"
  shows "processSalesFile sd rows t =
     foldl (salesRowStep sd t)
       (salesRowStep sd t (processSalesFile sd (take j rows) t) (rows ! j)) (drop (Suc j) rows)"
proof -
  have "rows = take j rows @ rows ! j # drop (Suc j) rows"
    using assms by (simp add: id_take_nth_drop)
  then have "processSalesFile sd rows t =
      processSalesFile sd (take j rows @ rows ! j # drop (Suc j) rows) t" by simp
  then show ?thesis by (simp add: processSalesFile_def)
qed

text \<open>
  C10. In \<open>processSalesFile\<close> the duplicate check on the synthesized transaction ID
  comes before every validation. When two rows of a file synthesize the same ID, the
  handler's turn on the later row does one thing, it appends the within-file duplicate
  entry for that row, and the entry is in the file's quarantine list. Nothing is assumed
  about the earlier row: it may have been rejected for its passenger key, flight key,
  date or ticket price, and its ID is reserved all the same.
\<close>

theorem duplicate_check_precedes_validation:
  assumes "i < j" and "j < length rows"
    and "synthTransactionId t (rows ! i) = synthTransactionId t (rows ! j)"
  shows "salesRowStep sd t (processSalesFile sd (take j rows) t) (rows ! j) =
           pushDirtyRow t (rows ! j)
             (''Duplicate transaction ID within file: '' @ synthTransactionId t (rows ! j))
             (processSalesFile sd (take j rows) t) \<and>
         \<lparr>source_table = t, original_data = RowData (rows ! j),
          error_reason = ''Duplicate transaction ID within file: '' @
                           synthTransactionId t (rows ! j)\<rparr>
           \<in> set (dirtyRows (processSalesFile sd rows t))"
proof -
  let ?before = "processSalesFile sd (take j rows) t"
  let ?id = "synthTransactionId t (rows ! j)"
  have "rows ! i \<in> set (take j rows)"
    using assms(1,2) by (auto simp: in_set_conv_nth intro!: exI[of _ i])
  then have "synthTransactionId t (rows ! i) \<in> synthTransactionId t ` set (take j rows)"
    by (rule imageI)
  then have "?id \<in> seenTransactionIds ?before"
    using assms(3) by (simp add: processSalesFile_def salesRows_seen)
  then have step: "salesRowStep sd t ?before (rows ! j) =
      pushDirtyRow t (rows ! j) (''Duplicate transaction ID within file: '' @ ?id) ?before"
    by (rule salesRowStep_duplicate)
  obtain ds where "dirtyRows (processSalesFile sd rows t) =
      dirtyRows (salesRowStep sd t ?before (rows ! j)) @ ds"
    using salesRows_dirty_grows processSalesFile_split[OF assms(2)] by metis
  then show ?thesis using step by (simp add: pushDirtyRow_fields)
qed

theorem duplicate_check_precedes_validation_witness:
  "(0::nat) < 1 \<and> 1 < length [badKeyRow, sampleRow ''07'' ''P123''] \<and>
   synthTransactionId ''travel_agency'' ([badKeyRow, sampleRow ''07'' ''P123''] ! 0) =
     synthTransactionId ''travel_agency'' ([badKeyRow, sampleRow ''07'' ''P123''] ! 1) \<and>
   dirtyRows (processSalesFile sampleDate (take 1 [badKeyRow, sampleRow ''07'' ''P123''])
                ''travel_agency'') = [badKeyEntry] \<and>
   \<lparr>source_table = ''travel_agency'', original_data = RowData (sampleRow ''07'' ''P123''),
    error_reason = ''Duplicate transaction ID within file: TA000007''\<rparr>
     \<in> set (dirtyRows (processSalesFile sampleDate [badKeyRow, sampleRow ''07'' ''P123'']
                          ''travel_agency''))"
proof -
  let ?rows = "[badKeyRow, sampleRow ''07'' ''P123'']"
  have h1: "(0::nat) < 1" by simp
  have h2: "1 < length ?rows" by simp
  have i0: "synthTransactionId ''travel_agency'' badKeyRow = ''TA000007''" by code_simp
  have i1: "synthTransactionId ''travel_agency'' (sampleRow ''07'' ''P123'') = ''TA000007''"
    by code_simp
  have h3: "synthTransactionId ''travel_agency'' (?rows ! 0) =
            synthTransactionId ''travel_agency'' (?rows ! 1)"
    by (simp add: i0 i1)
  have rej: "dirtyRows (processSalesFile sampleDate (take 1 ?rows) ''travel_agency'')
               = [badKeyEntry]"
    by code_simp
  from duplicate_check_precedes_validation[OF h1 h2 h3, of sampleDate]
  have "\<lparr>source_table = ''travel_agency'', original_data = RowData (sampleRow ''07'' ''P123''),
          error_reason = ''Duplicate transaction ID within file: TA000007''\<rparr>
     \<in> set (dirtyRows (processSalesFile sampleDate ?rows ''travel_agency''))"
    by (simp add: i1)
  then show ?thesis using h1 h2 h3 rej by simp
qed

subsection \<open>Deduplication\<close>

lemma dedupStep_seen: "seenIds (dedupStep st s) = insert (transaction_id s) (seenIds st)"
  by (auto simp: dedupStep_def)

lemma dedupSales_snoc: "dedupSales (xs @ [x]) = dedupStep (dedupSales xs) x"
  by (simp add: dedupSales_def)

lemma dedupSales_seen: "seenIds (dedupSales xs) = transaction_id ` set xs"
  by (induction xs rule: rev_induct) (simp_all add: dedupSales_snoc dedupStep_seen, simp add: dedupSales_def)

lemma dedupSales_distinct:
  "distinct (map transaction_id xs) \<Longrightarrow>
   finalSales (dedupSales xs) = xs \<and> crossFileDuplicates (dedupSales xs) = []"
proof (induction xs rule: rev_induct)
  case Nil
  show ?case by (simp add: dedupSales_def)
next
  case (snoc x xs)
  then have d: "distinct (map transaction_id xs)" and n: "transaction_id x \<notin> transaction_id ` set xs"
    by auto
  show ?case
    using snoc.IH[OF d] n
    by (simp add: dedupSales_snoc dedupStep_def dedupSales_seen)
qed

lemma synthTransactionId_prefix:
  "take 2 (synthTransactionId t r) = (if t = ''travel_agency'' then ''TA'' else ''CO'')"
  by (simp add: synthTransactionId_def Let_def)

lemma salesRowStep_sales:
  "sales (salesRowStep sd t st r) = sales st \<or>
   (synthTransactionId t r \<notin> seenTransactionIds st \<and>
    (\<exists>s. sales (salesRowStep sd t st r) = sales st @ [s] \<and>
         transaction_id s = synthTransactionId t r))"
  by (auto simp: salesRowStep_def Let_def pushDirtyRow_fields split: option.splits)

lemma salesRowStep_ids:
  assumes "distinct (map transaction_id (sales st))"
    and "transaction_id ` set (sales st) \<subseteq> seenTransactionIds st"
    and "\<forall>s\<in>set (sales st). take 2 (transaction_id s) = p"
    and "p = (if t = ''travel_agency'' then ''TA'' else ''CO'')"
  shows "distinct (map transaction_id (sales (salesRowStep sd t st r)))"
    and "transaction_id ` set (sales (salesRowStep sd t st r))
           \<subseteq> seenTransactionIds (salesRowStep sd t st r)"
    and "\<forall>s\<in>set (sales (salesRowStep sd t st r)). take 2 (transaction_id s) = p"
proof -
  consider (same) "sales (salesRowStep sd t st r) = sales st"
    | (new) s where "synthTransactionId t r \<notin> seenTransactionIds st"
        "sales (salesRowStep sd t st r) = sales st @ [s]"
        "transaction_id s = synthTransactionId t r"
    using salesRowStep_sales[of sd t st r] by blast
  then have "distinct (map transaction_id (sales (salesRowStep sd t st r))) \<and>
      transaction_id ` set (sales (salesRowStep sd t st r))
           \<subseteq> seenTransactionIds (salesRowStep sd t st r) \<and>
      (\<forall>s\<in>set (sales (salesRowStep sd t st r)). take 2 (transaction_id s) = p)"
  proof cases
    case same
    then show ?thesis using assms by (auto simp: salesRowStep_seen)
  next
    case new
    then show ?thesis
      using assms synthTransactionId_prefix[of t r]
      by (auto simp: salesRowStep_seen)
  qed
  then show "distinct (map transaction_id (sales (salesRowStep sd t st r)))"
    and "transaction_id ` set (sales (salesRowStep sd t st r))
           \<subseteq> seenTransactionIds (salesRowStep sd t st r)"
    and "\<forall>s\<in>set (sales (salesRowStep sd t st r)). take 2 (transaction_id s) = p"
    by blast+
qed

lemma salesRows_ids:
  assumes "distinct (map transaction_id (sales st))"
    and "transaction_id ` set (sales st) \<subseteq> seenTransactionIds st"
    and "\<forall>s\<in>set (sales st). take 2 (transaction_id s) = p"
    and "p = (if t = ''travel_agency'' then ''TA'' else ''CO'')"
  shows "distinct (map transaction_id (sales (foldl (salesRowStep sd t) st rs))) \<and>
         (\<forall>s\<in>set (sales (foldl (salesRowStep sd t) st rs)). take 2 (transaction_id s) = p)"
  using assms
proof (induction rs arbitrary: st)
  case Nil
  then show ?case by simp
next
  case (Cons r rs)
  note step = salesRowStep_ids[OF Cons.prems, of sd r]
  show ?case
    using Cons.IH[OF step Cons.prems(4)] by simp
qed

lemma processSalesFile_ids:
  "distinct (map transaction_id (sales (processSalesFile sd rows t))) \<and>
   (\<forall>s\<in>set (sales (processSalesFile sd rows t)).
      take 2 (transaction_id s) = (if t = ''travel_agency'' then ''TA'' else ''CO''))"
  unfolding processSalesFile_def
  by (rule salesRows_ids) simp_all

lemma cross_file_ids_distinct:
  "distinct (map transaction_id
     (sales (processSalesFile sd travelRows ''travel_agency'') @
      sales (processSalesFile sd corporateRows ''corporate'')))"
proof -
  let ?T = "sales (processSalesFile sd travelRows ''travel_agency'')"
  let ?C = "sales (processSalesFile sd corporateRows ''corporate'')"
  have t: "distinct (map transaction_id ?T)" "\<forall>s\<in>set ?T. take 2 (transaction_id s) = ''TA''"
    using processSalesFile_ids[of sd travelRows "''travel_agency''"] by simp_all
  have ne: "''corporate'' \<noteq> ''travel_agency''" by simp
  have c: "distinct (map transaction_id ?C)" "\<forall>s\<in>set ?C. take 2 (transaction_id s) = ''CO''"
    using processSalesFile_ids[of sd corporateRows "''corporate''"] ne by simp_all
  have "transaction_id a \<noteq> transaction_id b" if "a \<in> set ?T" "b \<in> set ?C" for a b
  proof
    assume "transaction_id a = transaction_id b"
    then have "take 2 (transaction_id a) = take 2 (transaction_id b)" by simp
    then have "''TA'' = ''CO''" using t(2) c(2) that by simp
    then show False by simp
  qed
  then have "set (map transaction_id ?T) \<inter> set (map transaction_id ?C) = {}" by auto
  then show ?thesis using t(1) c(1) by simp
qed

lemma filter_upt_single:
  assumes "i < n" and "\<And>k. k < n \<Longrightarrow> P k \<longleftrightarrow> k = i"
  shows "filter P [0..<n] = [i]"
proof -
  have "filter P [0..<n] = filter (\<lambda>k. k = i) [0..<n]"
    by (rule filter_cong) (auto simp: assms(2))
  also have "\<dots> = [i]"
  proof -
    have "[0..<n] = [0..<i] @ i # [Suc i..<n]"
      using assms(1) by (metis le0 upt_add_eq_append upt_conv_Cons le_add_diff_inverse less_imp_le_nat)
    then show ?thesis by (simp add: filter_empty_conv)
  qed
  finally show ?thesis .
qed

lemma paxStep2_snoc:
  "paxStep2 (rows @ [r]) = paxRowStep (paxStep2 rows) (length rows, r)"
  by (simp add: paxStep2_def)

lemma paxRowStep_keys:
  "set (map fst (passengerMap (paxRowStep st (n, r)))) =
     set (map fst (passengerMap st)) \<union> set_option (paxKey r)"
  by (auto simp: paxRowStep_def paxKey_def Let_def split: option.splits)

lemma paxStep2_keys:
  "set (map fst (passengerMap (paxStep2 rows))) = {k. Some k \<in> paxKey ` set rows}"
proof (induction rows rule: rev_induct)
  case Nil
  show ?case by (simp add: paxStep2_def)
next
  case (snoc r rows)
  show ?case
    unfolding paxStep2_snoc paxRowStep_keys snoc.IH
    by (auto simp: image_iff)
qed

lemma paxStep2_unique:
  "uniquePassengers (paxStep2 rows) =
     map (\<lambda>n. paxRecord (the (paxKey (rows ! n))) (rows ! n))
       (filter (\<lambda>n. paxKey (rows ! n) \<noteq> None \<and> paxKey (rows ! n) \<notin> paxKey ` set (take n rows))
          [0..<length rows])"
proof (induction rows rule: rev_induct)
  case Nil
  show ?case by (simp add: paxStep2_def uniquePassengers_def)
next
  case (snoc r rows)
  let ?P = "\<lambda>pre x. paxKey x \<noteq> None \<and> paxKey x \<notin> paxKey ` set pre"
  let ?ks = "filter (\<lambda>n. ?P (take n rows) (rows ! n)) [0..<length rows]"
  have f: "filter (\<lambda>n. ?P (take n (rows @ [r])) ((rows @ [r]) ! n)) [0..<length rows] = ?ks"
    by (rule filter_cong) (auto simp: nth_append)
  have m: "map (\<lambda>n. paxRecord (the (paxKey ((rows @ [r]) ! n))) ((rows @ [r]) ! n)) ?ks =
           map (\<lambda>n. paxRecord (the (paxKey (rows ! n))) (rows ! n)) ?ks"
    by (rule map_cong) (auto simp: nth_append)
  have step: "uniquePassengers (paxRowStep st (n, r)) =
      uniquePassengers st @
        (case paxKey r of None \<Rightarrow> []
         | Some k \<Rightarrow> if k \<in> set (map fst (passengerMap st)) then [] else [paxRecord k r])" for st n
    by (auto simp: paxRowStep_def paxKey_def uniquePassengers_def Let_def split: option.splits)
  have keysD: "Some k \<in> paxKey ` set rows" if "(k, e) \<in> set (passengerMap (paxStep2 rows))" for k e
  proof -
    have "k \<in> set (map fst (passengerMap (paxStep2 rows)))" using that by force
    then show ?thesis unfolding paxStep2_keys by simp
  qed
  have keysI: "k \<in> fst ` set (passengerMap (paxStep2 rows))"
    if "x \<in> set rows" "Some k = paxKey x" for k x
  proof -
    have "Some k \<in> paxKey ` set rows" using that by auto
    then have "k \<in> set (map fst (passengerMap (paxStep2 rows)))"
      unfolding paxStep2_keys by simp
    then show ?thesis by simp
  qed
  show ?case
    unfolding paxStep2_snoc step
    using snoc.IH f m
    by (cases "paxKey r") (auto dest: keysD intro: keysI)
qed

lemma paxStep2_dirty_dup:
  assumes "j < length rows" "paxKey (rows ! j) = Some k" "Some k \<in> paxKey ` set (take j rows)"
  shows "\<lparr>row = rows ! j, reason = ''Duplicate passenger key: '' @ k\<rparr>
           \<in> set (toDirty (paxStep2 rows))"
proof -
  have grows1: "\<exists>ds. toDirty (paxRowStep st ir) = toDirty st @ ds" for st ir
    by (auto simp: paxRowStep_def Let_def split: option.splits)
  have grows: "\<exists>ds. toDirty (foldl paxRowStep st irs) = toDirty st @ ds" for st irs
  proof (induction irs arbitrary: st)
    case Nil
    show ?case by simp
  next
    case (Cons ir irs)
    obtain d1 where d1: "toDirty (paxRowStep st ir) = toDirty st @ d1" using grows1 by blast
    obtain d2 where "toDirty (foldl paxRowStep (paxRowStep st ir) irs)
        = toDirty (paxRowStep st ir) @ d2" using Cons.IH by blast
    then show ?case by (simp add: d1)
  qed
  have split: "rows = take j rows @ rows ! j # drop (Suc j) rows"
    using assms(1) by (simp add: id_take_nth_drop)
  have z: "zip [0..<length rows] rows =
      zip [0..<j] (take j rows) @ (j, rows ! j) # zip [Suc j..<length rows] (drop (Suc j) rows)"
  proof -
    have u: "[0..<length rows] = [0..<j] @ j # [Suc j..<length rows]"
      using assms(1) by (metis le0 upt_add_eq_append upt_conv_Cons le_add_diff_inverse less_imp_le_nat)
    have "zip [0..<length rows] rows =
        zip ([0..<j] @ j # [Suc j..<length rows]) (take j rows @ rows ! j # drop (Suc j) rows)"
      using u split by simp
    also have "\<dots> = zip [0..<j] (take j rows) @
        zip (j # [Suc j..<length rows]) (rows ! j # drop (Suc j) rows)"
      using assms(1) by (intro zip_append) simp
    finally show ?thesis by simp
  qed
  have before: "foldl paxRowStep \<lparr>passengerMap = [], toDirty = []\<rparr> (zip [0..<j] (take j rows))
      = paxStep2 (take j rows)"
    using assms(1) by (simp add: paxStep2_def min_absorb2)
  have whole: "paxStep2 rows =
      foldl paxRowStep (paxRowStep (paxStep2 (take j rows)) (j, rows ! j))
        (zip [Suc j..<length rows] (drop (Suc j) rows))"
    unfolding paxStep2_def[of rows] z by (simp add: before)
  have "k \<in> set (map fst (passengerMap (paxStep2 (take j rows))))"
    using assms(3) paxStep2_keys[of "take j rows"] by auto
  then have here: "toDirty (paxRowStep (paxStep2 (take j rows)) (j, rows ! j)) =
      toDirty (paxStep2 (take j rows)) @
        [\<lparr>row = rows ! j, reason = ''Duplicate passenger key: '' @ k\<rparr>]"
    using assms(2) by (simp add: paxRowStep_def paxKey_def Let_def)
  obtain ds where "toDirty (paxStep2 rows) =
      toDirty (paxRowStep (paxStep2 (take j rows)) (j, rows ! j)) @ ds"
    using grows whole by metis
  then show ?thesis by (simp add: here)
qed

lemma passenger_key_paxRecord: "passenger_key (paxRecord k r) = k"
  by (simp add: paxRecord_def Let_def)

lemma paxRowStep_count:
  "length (passengerMap (paxRowStep st ir)) + length (toDirty (paxRowStep st ir)) =
     length (passengerMap st) + length (toDirty st) + 1"
  by (auto simp: paxRowStep_def Let_def split: option.splits)

lemma paxStep2_count:
  "length (uniquePassengers (paxStep2 rows)) + length (toDirty (paxStep2 rows)) = length rows"
proof (induction rows rule: rev_induct)
  case Nil
  show ?case by (simp add: paxStep2_def uniquePassengers_def)
next
  case (snoc r rows)
  show ?case
    using snoc.IH paxRowStep_count[of "paxStep2 rows" "(length rows, r)"]
    by (simp add: paxStep2_snoc uniquePassengers_def)
qed

lemma paxStep2_first_kept:
  assumes ij: "i < j" and j: "j < length rows"
    and ki: "paxKey (rows ! i) = Some k" and kj: "paxKey (rows ! j) = Some k"
  shows "\<lparr>row = rows ! j, reason = ''Duplicate passenger key: '' @ k\<rparr>
           \<in> set (toDirty (paxStep2 rows))"
    and "(\<forall>h<i. paxKey (rows ! h) \<noteq> Some k) \<Longrightarrow>
         filter (\<lambda>p. passenger_key p = k) (uniquePassengers (paxStep2 rows))
           = [paxRecord k (rows ! i)]"
proof -
  have "rows ! i \<in> set (take j rows)"
    using ij j by (auto simp: in_set_conv_nth intro!: exI[of _ i])
  then have "paxKey (rows ! i) \<in> paxKey ` set (take j rows)" by (rule imageI)
  then have "Some k \<in> paxKey ` set (take j rows)" using ki by simp
  then show "\<lparr>row = rows ! j, reason = ''Duplicate passenger key: '' @ k\<rparr>
           \<in> set (toDirty (paxStep2 rows))"
    using paxStep2_dirty_dup[OF j kj] by simp
next
  assume fst: "\<forall>h<i. paxKey (rows ! h) \<noteq> Some k"
  let ?Q = "\<lambda>n. paxKey (rows ! n) \<noteq> None \<and> paxKey (rows ! n) \<notin> paxKey ` set (take n rows)"
  let ?f = "\<lambda>n. paxRecord (the (paxKey (rows ! n))) (rows ! n)"
  have il: "i < length rows" using ij j by simp
  have char: "(?Q n \<and> passenger_key (?f n) = k) \<longleftrightarrow> n = i" if n: "n < length rows" for n
  proof
    assume h: "?Q n \<and> passenger_key (?f n) = k"
    then have kn: "paxKey (rows ! n) = Some k"
      by (auto simp: passenger_key_paxRecord)
    show "n = i"
    proof (rule ccontr)
      assume ne: "n \<noteq> i"
      show False
      proof (cases "n < i")
        case True
        then show False using fst kn by auto
      next
        case False
        then have "i < n" using ne by simp
        then have "rows ! i \<in> set (take n rows)"
          using n by (auto simp: in_set_conv_nth intro!: exI[of _ i])
        then have "paxKey (rows ! i) \<in> paxKey ` set (take n rows)" by (rule imageI)
        then show False using h kn ki by metis
      qed
    qed
  next
    assume e: "n = i"
    have "Some k \<notin> paxKey ` set (take i rows)"
    proof
      assume "Some k \<in> paxKey ` set (take i rows)"
      then obtain x where x: "x \<in> set (take i rows)" "paxKey x = Some k" by auto
      then obtain h where "h < i" "h < length rows" "x = rows ! h"
        by (auto simp: in_set_conv_nth)
      then show False using fst x(2) by auto
    qed
    then show "?Q n \<and> passenger_key (?f n) = k"
      using e ki by (simp add: passenger_key_paxRecord)
  qed
  have "filter (\<lambda>p. passenger_key p = k) (uniquePassengers (paxStep2 rows)) =
        map ?f (filter (\<lambda>n. ?Q n \<and> passenger_key (?f n) = k) [0..<length rows])"
    by (simp add: paxStep2_unique filter_map comp_def conj_commute)
  also have "\<dots> = map ?f [i]"
    using filter_upt_single[OF il, of "\<lambda>n. ?Q n \<and> passenger_key (?f n) = k"] char
    by simp
  finally show "filter (\<lambda>p. passenger_key p = k) (uniquePassengers (paxStep2 rows))
           = [paxRecord k (rows ! i)]"
    by (simp add: ki)
qed

text \<open>
  C8 as stated fails in the airport loader, a deduplication scope of its own: of two rows
  with the airport key \<open>JFK\<close> the first is uploaded and the second is skipped with a console
  message; the run's only remote call is the upsert of the first, and nothing is
  quarantined.
\<close>

theorem airport_duplicate_dropped:
  "map_option toUpperCase (trimOpt (field (airportRow ''JFK'' ''Kennedy'') ''AirportKey''))
     = Some ''JFK'' \<and>
   map_option toUpperCase (trimOpt (field (airportRow '' jfk '' ''Kennedy Intl'') ''AirportKey''))
     = Some ''JFK'' \<and>
   uploadAirports acceptingStore emptyWorld
       [airportRow ''JFK'' ''Kennedy'', airportRow '' jfk '' ''Kennedy Intl''] =
     \<lparr>calls = [Upsert ''dim_airport'' ''airport_key''
                 [AirportData \<lparr>airport_key = ''JFK'', airport_name = Some ''Kennedy'',
                               city = Some ''New York'', country = ''United States''\<rparr>]],
      localFile = [], successCount = 1, errorCount = 0\<rparr>"
  by code_simp

text \<open>
  C8, as the code has it, for the passenger and sales loaders. In step 2 of
  \<open>uploadPassengers\<close>, when the rows at positions \<open>i < j\<close> standardize to the same passenger
  key, the later row is quarantined with the duplicate reason and its payload; when \<open>i\<close>
  is the first position with that key, the clean output holds exactly one record with the
  key, the record standardized from row \<open>i\<close>; and every row goes either to the clean
  output or to quarantine. In \<open>uploadAllSales\<close> the clean records that reach the cross-file
  loop never share a transaction ID, each file being deduplicated on the synthesized ID
  and the two files using different prefixes, so the loop keeps every record and
  quarantines none.
\<close>

theorem loader_dedup_first_kept:
  "(i < j \<and> j < length rows \<and> paxKey (rows ! i) = Some k \<and> paxKey (rows ! j) = Some k \<longrightarrow>
      \<lparr>row = rows ! j, reason = ''Duplicate passenger key: '' @ k\<rparr>
        \<in> set (toDirty (paxStep2 rows)) \<and>
      ((\<forall>h<i. paxKey (rows ! h) \<noteq> Some k) \<longrightarrow>
         filter (\<lambda>p. passenger_key p = k) (uniquePassengers (paxStep2 rows)) =
           [\<lparr>passenger_key = k,
             full_name =
               Some (case orElse (trimOpt (field (rows ! i) ''FullName'')) (Some ''Unknown'') of
                       Some s \<Rightarrow> s | None \<Rightarrow> ''Unknown''),
             email =
               standardizeEmail_pax
                 (case orElse (trimOpt (field (rows ! i) ''FullName'')) (Some ''Unknown'') of
                    Some s \<Rightarrow> s | None \<Rightarrow> ''Unknown'')
                 (trimOpt (field (rows ! i) ''Email'')),
             loyalty_status = standardizeLoyaltyStatus (field (rows ! i) ''LoyaltyStatus'')\<rparr>])) \<and>
   length (uniquePassengers (paxStep2 rows)) + length (toDirty (paxStep2 rows)) = length rows \<and>
   distinct (map transaction_id
     (sales (processSalesFile sd travelRows ''travel_agency'') @
      sales (processSalesFile sd corporateRows ''corporate''))) \<and>
   finalSales (dedupSales
     (sales (processSalesFile sd travelRows ''travel_agency'') @
      sales (processSalesFile sd corporateRows ''corporate''))) =
     sales (processSalesFile sd travelRows ''travel_agency'') @
     sales (processSalesFile sd corporateRows ''corporate'') \<and>
   crossFileDuplicates (dedupSales
     (sales (processSalesFile sd travelRows ''travel_agency'') @
      sales (processSalesFile sd corporateRows ''corporate''))) = []"
proof -
  have rec: "paxRecord k (rows ! i) =
      \<lparr>passenger_key = k,
       full_name =
         Some (case orElse (trimOpt (field (rows ! i) ''FullName'')) (Some ''Unknown'') of
                 Some s \<Rightarrow> s | None \<Rightarrow> ''Unknown''),
       email =
         standardizeEmail_pax
           (case orElse (trimOpt (field (rows ! i) ''FullName'')) (Some ''Unknown'') of
              Some s \<Rightarrow> s | None \<Rightarrow> ''Unknown'')
           (trimOpt (field (rows ! i) ''Email'')),
       loyalty_status = standardizeLoyaltyStatus (field (rows ! i) ''LoyaltyStatus'')\<rparr>"
    by (simp add: paxRecord_def Let_def)
  have pax: "\<lparr>row = rows ! j, reason = ''Duplicate passenger key: '' @ k\<rparr>
        \<in> set (toDirty (paxStep2 rows)) \<and>
      ((\<forall>h<i. paxKey (rows ! h) \<noteq> Some k) \<longrightarrow>
         filter (\<lambda>p. passenger_key p = k) (uniquePassengers (paxStep2 rows)) =
           [paxRecord k (rows ! i)])"
    if "i < j" "j < length rows" "paxKey (rows ! i) = Some k" "paxKey (rows ! j) = Some k"
    using paxStep2_first_kept[OF that] by blast
  note d = cross_file_ids_distinct[of sd travelRows corporateRows]
  note s = dedupSales_distinct[OF d]
  show ?thesis
    using pax paxStep2_count[of rows] d s unfolding rec by blast
qed

theorem loader_dedup_first_kept_witness:
  "(0::nat) < 2 \<and>
   2 < length [scenarioRow ''P001'', scenarioRow ''P002'', scenarioRow ''AP-2001''] \<and>
   paxKey (scenarioRow ''P001'') = Some ''P001'' \<and>
   paxKey (scenarioRow ''AP-2001'') = Some ''P001'' \<and>
   \<lparr>row = scenarioRow ''AP-2001'', reason = ''Duplicate passenger key: P001''\<rparr>
     \<in> set (toDirty (paxStep2 [scenarioRow ''P001'', scenarioRow ''P002'', scenarioRow ''AP-2001''])) \<and>
   filter (\<lambda>p. passenger_key p = ''P001'')
     (uniquePassengers (paxStep2 [scenarioRow ''P001'', scenarioRow ''P002'', scenarioRow ''AP-2001'']))
     = [\<lparr>passenger_key = ''P001'', full_name = Some ''Jane Doe'',
         email = ''jane.doe@example.com'', loyalty_status = ''Gold''\<rparr>]"
proof -
  let ?rows = "[scenarioRow ''P001'', scenarioRow ''P002'', scenarioRow ''AP-2001'']"
  have h1: "(0::nat) < 2" by simp
  have h2: "2 < length ?rows" by simp
  have k0: "paxKey (scenarioRow ''P001'') = Some ''P001''" by code_simp
  have k2: "paxKey (scenarioRow ''AP-2001'') = Some ''P001''" by code_simp
  have k: "paxKey (?rows ! 0) = Some ''P001''" "paxKey (?rows ! 2) = Some ''P001''"
    using k0 k2 by simp_all
  have f: "\<forall>h<0. paxKey (?rows ! h) \<noteq> Some ''P001''" by simp
  have r: "\<lparr>passenger_key = ''P001'',
       full_name =
         Some (case orElse (trimOpt (field (?rows ! 0) ''FullName'')) (Some ''Unknown'') of
                 Some s \<Rightarrow> s | None \<Rightarrow> ''Unknown''),
       email =
         standardizeEmail_pax
           (case orElse (trimOpt (field (?rows ! 0) ''FullName'')) (Some ''Unknown'') of
              Some s \<Rightarrow> s | None \<Rightarrow> ''Unknown'')
           (trimOpt (field (?rows ! 0) ''Email'')),
       loyalty_status = standardizeLoyaltyStatus (field (?rows ! 0) ''LoyaltyStatus'')\<rparr> =
     \<lparr>passenger_key = ''P001'', full_name = Some ''Jane Doe'',
      email = ''jane.doe@example.com'', loyalty_status = ''Gold''\<rparr>"
    by code_simp
  from loader_dedup_first_kept[of 0 2 ?rows "''P001''"] h1 h2 k f
  have "\<lparr>row = ?rows ! 2, reason = ''Duplicate passenger key: '' @ ''P001''\<rparr>
          \<in> set (toDirty (paxStep2 ?rows)) \<and>
        filter (\<lambda>p. passenger_key p = ''P001'') (uniquePassengers (paxStep2 ?rows)) =
          [\<lparr>passenger_key = ''P001'',
            full_name =
              Some (case orElse (trimOpt (field (?rows ! 0) ''FullName'')) (Some ''Unknown'') of
                      Some s \<Rightarrow> s | None \<Rightarrow> ''Unknown''),
            email =
              standardizeEmail_pax
                (case orElse (trimOpt (field (?rows ! 0) ''FullName'')) (Some ''Unknown'') of
                   Some s \<Rightarrow> s | None \<Rightarrow> ''Unknown'')
                (trimOpt (field (?rows ! 0) ''Email'')),
            loyalty_status = standardizeLoyaltyStatus (field (?rows ! 0) ''LoyaltyStatus'')\<rparr>]"
    by blast
  then have "\<lparr>row = ?rows ! 2, reason = ''Duplicate passenger key: '' @ ''P001''\<rparr>
          \<in> set (toDirty (paxStep2 ?rows)) \<and>
        filter (\<lambda>p. passenger_key p = ''P001'') (uniquePassengers (paxStep2 ?rows)) =
          [\<lparr>passenger_key = ''P001'', full_name = Some ''Jane Doe'',
            email = ''jane.doe@example.com'', loyalty_status = ''Gold''\<rparr>]"
    unfolding r .
  then show ?thesis using h1 h2 k0 k2 by simp
qed

subsection \<open>Amounts\<close>

text \<open>
  C7. Amount standardization keeps the sign of the numeric text. The code of
  \<open>uploadAllSales\<close> fails this: its regular expression removes the minus sign with the
  other characters, so \<open>-12.50\<close> becomes 12.50; the \<open>standardize\<close> closure of
  smartFileProcessor keeps it.
\<close>

theorem amount_sign_lost:
  "standardizeAmount (Some ''-12.50'') = Cents 1250 \<and>
   standardize (Some ''-12.50'') = Cents (- 1250)"
  by code_simp

subsection \<open>Rejected airline rows\<close>

text \<open>
  C9. Every rejected row leaves one quarantine entry with its payload and a reason. The
  code fails this in \<open>processAirlineData\<close>: a row whose airline key is blank after
  trimming is filtered out of the clean records and the list of rejects stays empty.
\<close>

theorem blank_airline_key_dropped:
  "processAirlineData [[(''AirlineKey'', ''  ''), (''AirlineName'', ''Acme Air'')]] = ([], [])"
  by code_simp

subsection \<open>The load engine\<close>

text \<open>
  C2. Every record of a run ends stored, counted as already existing, or in quarantine,
  also when the batch write throws. The code fails this. With a store whose batch writes
  reject, the one clean sale of an \<open>uploadAllSales\<close> run is counted as an error and
  nothing else: the only call made is the rejected upsert, the sale is not counted as
  existing and the quarantine list stays empty. The one clean passenger of an
  \<open>uploadPassengers\<close> run fares the same: one rejected insert, one error counted, no
  write to the quarantine table.
\<close>

theorem thrown_batch_record_lost:
  "uploadAllSales sampleDate throwingStore appendWorks emptyWorld [sampleRow ''7'' ''P123''] [] =
     Completed \<lparr>calls = [Upsert ''fact_sales'' ''transaction_id''
                          [SaleData (sampleSale ''TA000007'')]],
                localFile = [], uploaded = 0, errors = 1, skippedDuplicates = 0,
                allDirty = [], dirtySaved = 0\<rparr> \<and>
   uploadPassengers throwingStore emptyWorld [scenarioRow ''P001''] =
     \<lparr>calls = [Insert ''dim_passenger'' [PassengerData samplePassenger]], localFile = [],
      uploaded_pax = 0, errors_pax = 1, alreadyExist = 0, failedPassengers = []\<rparr>"
  by code_simp

lemma uploadOne_calls:
  "calls (uploadOne st run s) =
     calls run @ [UpsertOne ''fact_sales'' ''transaction_id'' (SaleData s)]"
  by (simp add: uploadOne_def remote_def split: reply.splits)

lemma uploadOne_effect:
  "uploaded (uploadOne st run s) = uploaded run +
     (if st (calls run) (UpsertOne ''fact_sales'' ''transaction_id'' (SaleData s)) = Ok
      then 1 else 0)"
  "skippedDuplicates (uploadOne st run s) = skippedDuplicates run +
     (if conflictReply (st (calls run) (UpsertOne ''fact_sales'' ''transaction_id'' (SaleData s)))
      then 1 else 0)"
  "errors (uploadOne st run s) = errors run +
     (if otherFailure (st (calls run) (UpsertOne ''fact_sales'' ''transaction_id'' (SaleData s)))
      then 1 else 0)"
  "allDirty (uploadOne st run s) = allDirty run @
     (case st (calls run) (UpsertOne ''fact_sales'' ''transaction_id'' (SaleData s)) of
        Failed e \<Rightarrow> [if isConflict e then alreadyExistsEntry s else uploadFailedEntry s e]
      | _ \<Rightarrow> [])"
  by (simp_all add: uploadOne_def remote_def conflictReply_def otherFailure_def
        split: reply.splits)

lemma uploadOnes_calls:
  "calls (foldl (uploadOne st) run xs) =
     calls run @ map (\<lambda>s. UpsertOne ''fact_sales'' ''transaction_id'' (SaleData s)) xs"
  by (induction xs arbitrary: run) (simp_all add: uploadOne_calls)

lemma singleReply_snoc:
  "k < length xs \<Longrightarrow> singleReply st h (xs @ [x]) k = singleReply st h xs k"
  "singleReply st h (xs @ [x]) (length xs) =
     st (h @ map (\<lambda>s. UpsertOne ''fact_sales'' ''transaction_id'' (SaleData s)) xs)
        (UpsertOne ''fact_sales'' ''transaction_id'' (SaleData x))"
  by (simp_all add: singleReply_def nth_append)

lemma count_upt_snoc:
  assumes "\<And>k. k < n \<Longrightarrow> P k = Q k"
  shows "length (filter P [0..<Suc n]) = length (filter Q [0..<n]) + (if P n then 1 else 0)"
proof -
  have "filter P [0..<n] = filter Q [0..<n]"
    by (rule filter_cong) (auto simp: assms)
  then show ?thesis by simp
qed

lemma uploadOnes_counts:
  "uploaded (foldl (uploadOne st) run xs) = uploaded run +
     length (filter (\<lambda>k. singleReply st (calls run) xs k = Ok) [0..<length xs]) \<and>
   skippedDuplicates (foldl (uploadOne st) run xs) = skippedDuplicates run +
     length (filter (\<lambda>k. conflictReply (singleReply st (calls run) xs k)) [0..<length xs]) \<and>
   errors (foldl (uploadOne st) run xs) = errors run +
     length (filter (\<lambda>k. otherFailure (singleReply st (calls run) xs k)) [0..<length xs])"
proof (induction xs rule: rev_induct)
  case Nil
  show ?case by simp
next
  case (snoc x xs)
  let ?r = "st (calls run @ map (\<lambda>s. UpsertOne ''fact_sales'' ''transaction_id'' (SaleData s)) xs)
               (UpsertOne ''fact_sales'' ''transaction_id'' (SaleData x))"
  have c: "length (filter (\<lambda>k. F (singleReply st (calls run) (xs @ [x]) k)) [0..<Suc (length xs)]) =
           length (filter (\<lambda>k. F (singleReply st (calls run) xs k)) [0..<length xs]) +
             (if F ?r then 1 else 0)" for F :: "reply \<Rightarrow> bool"
    using count_upt_snoc[of "length xs" "\<lambda>k. F (singleReply st (calls run) (xs @ [x]) k)"
            "\<lambda>k. F (singleReply st (calls run) xs k)"]
    by (simp add: singleReply_snoc)
  show ?case
    using snoc.IH c[of "\<lambda>r. r = Ok"] c[of conflictReply] c[of otherFailure]
    by (simp add: uploadOne_effect uploadOnes_calls)
qed

lemma uploadOnes_dirty:
  "allDirty (foldl (uploadOne st) run xs) = allDirty run @
     concat (map (\<lambda>k. case singleReply st (calls run) xs k of
                         Failed e \<Rightarrow> [if isConflict e then alreadyExistsEntry (xs ! k)
                                       else uploadFailedEntry (xs ! k) e]
                       | _ \<Rightarrow> [])
                [0..<length xs])"
proof (induction xs rule: rev_induct)
  case Nil
  show ?case by simp
next
  case (snoc x xs)
  let ?E = "\<lambda>ys k. case singleReply st (calls run) ys k of
                      Failed e \<Rightarrow> [if isConflict e then alreadyExistsEntry (ys ! k)
                                    else uploadFailedEntry (ys ! k) e]
                    | _ \<Rightarrow> []"
  have m: "map (?E (xs @ [x])) [0..<length xs] = map (?E xs) [0..<length xs]"
    by (rule map_cong) (simp_all add: singleReply_snoc nth_append split: reply.splits)
  have l: "?E (xs @ [x]) (length xs) =
      (case st (calls run @ map (\<lambda>s. UpsertOne ''fact_sales'' ''transaction_id'' (SaleData s)) xs)
               (UpsertOne ''fact_sales'' ''transaction_id'' (SaleData x)) of
         Failed e \<Rightarrow> [if isConflict e then alreadyExistsEntry x else uploadFailedEntry x e]
       | _ \<Rightarrow> [])"
    by (simp add: singleReply_snoc split: reply.splits)
  have step: "allDirty (foldl (uploadOne st) run (xs @ [x])) =
      allDirty (foldl (uploadOne st) run xs) @ ?E (xs @ [x]) (length xs)"
    unfolding l by (simp add: uploadOne_effect uploadOnes_calls)
  have "concat (map (?E (xs @ [x])) [0..<length (xs @ [x])]) =
      concat (map (?E (xs @ [x])) [0..<length xs]) @ ?E (xs @ [x]) (length xs)"
    by simp
  also have "\<dots> = concat (map (?E xs) [0..<length xs]) @ ?E (xs @ [x]) (length xs)"
    by (simp only: m)
  finally have cc: "concat (map (?E (xs @ [x])) [0..<length (xs @ [x])]) =
      concat (map (?E xs) [0..<length xs]) @ ?E (xs @ [x]) (length xs)" .
  show ?case
    unfolding step snoc.IH cc by simp
qed

lemma startsWith_refl: "startsWith s s"
  by (induction s) simp_all

lemma str_includes_refl: "str_includes s s"
  by (cases s) (simp_all add: startsWith_refl)

lemma str_includes_self_suffix: "str_includes (p @ s) s"
  by (induction p) (simp_all add: str_includes_refl)

text \<open>
  C5 as stated fails in \<open>uploadPassengers\<close>: when the batch insert fails with an error
  that is not a conflict, no record is tried on its own; the batch is written to the
  quarantine table with the batch error.
\<close>

theorem passenger_batch_error_not_retried:
  "batchFailingStore [] (Insert ''dim_passenger'' [PassengerData samplePassenger])
     = Failed (SbError ''57014'' ''statement timeout'') \<and>
   calls (paxUploadBatch batchFailingStore emptyPaxRun [samplePassenger]) =
     [Insert ''dim_passenger'' [PassengerData samplePassenger],
      InsertDirtyOne \<lparr>source_table = ''passengers'',
                      original_data = PassengerData samplePassenger,
                      error_reason = ''Batch upload failed: statement timeout''\<rparr>]"
  by code_simp

text \<open>
  C5, as the code has it, for the sales load. When the batch upsert of \<open>uploadAllSales\<close>
  returns an error, every record of the batch is tried once on its own, in batch order,
  and no further call is made for it. The records are counted by the reply to their own
  upsert: as already present exactly those whose upsert returns a conflict error, as
  uploaded those whose upsert succeeds, as errors the rest. A record whose own upsert
  returns a conflict error is quarantined with the already-exists reason, one whose
  upsert returns another error with a reason that contains the error's message; and when
  no individual upsert of the batch throws, these entries, in batch order, are all that
  the batch adds to the quarantine list.
\<close>

theorem sales_batch_fallback:
  assumes "st (calls run) (Upsert ''fact_sales'' ''transaction_id'' (map SaleData batch))
             = Failed error"
  shows
    "calls (uploadBatch st run batch) =
       calls run @ Upsert ''fact_sales'' ''transaction_id'' (map SaleData batch) #
         map (\<lambda>s. UpsertOne ''fact_sales'' ''transaction_id'' (SaleData s)) batch \<and>
     skippedDuplicates (uploadBatch st run batch) = skippedDuplicates run +
       length (filter
         (\<lambda>k. conflictReply (singleReply st
                 (calls run @ [Upsert ''fact_sales'' ''transaction_id'' (map SaleData batch)])
                 batch k))
         [0..<length batch]) \<and>
     uploaded (uploadBatch st run batch) = uploaded run +
       length (filter
         (\<lambda>k. singleReply st
                 (calls run @ [Upsert ''fact_sales'' ''transaction_id'' (map SaleData batch)])
                 batch k = Ok)
         [0..<length batch]) \<and>
     errors (uploadBatch st run batch) = errors run +
       length (filter
         (\<lambda>k. otherFailure (singleReply st
                 (calls run @ [Upsert ''fact_sales'' ''transaction_id'' (map SaleData batch)])
                 batch k))
         [0..<length batch]) \<and>
     (\<forall>k<length batch. \<forall>e.
        singleReply st
          (calls run @ [Upsert ''fact_sales'' ''transaction_id'' (map SaleData batch)])
          batch k = Failed e \<longrightarrow>
        (if isConflict e
         then \<lparr>source_table = sales_source (batch ! k), original_data = SaleData (batch ! k),
               error_reason = ''Transaction ID already exists in database: '' @
                                transaction_id (batch ! k)\<rparr>
         else \<lparr>source_table = sales_source (batch ! k), original_data = SaleData (batch ! k),
               error_reason = ''Upload failed: '' @ errMessage e\<rparr>)
          \<in> set (allDirty (uploadBatch st run batch)) \<and>
        str_includes (''Upload failed: '' @ errMessage e) (errMessage e)) \<and>
     ((\<forall>k<length batch. \<forall>m.
         singleReply st
           (calls run @ [Upsert ''fact_sales'' ''transaction_id'' (map SaleData batch)])
           batch k \<noteq> Thrown m) \<longrightarrow>
      allDirty (uploadBatch st run batch) = allDirty run @
        concat (map
          (\<lambda>k. case singleReply st
                      (calls run @ [Upsert ''fact_sales'' ''transaction_id'' (map SaleData batch)])
                      batch k of
                  Failed e \<Rightarrow>
                    [if isConflict e
                     then \<lparr>source_table = sales_source (batch ! k),
                           original_data = SaleData (batch ! k),
                           error_reason = ''Transaction ID already exists in database: '' @
                                            transaction_id (batch ! k)\<rparr>
                     else \<lparr>source_table = sales_source (batch ! k),
                           original_data = SaleData (batch ! k),
                           error_reason = ''Upload failed: '' @ errMessage e\<rparr>]
                | _ \<Rightarrow> [])
          [0..<length batch]))"
proof -
  let ?b = "Upsert ''fact_sales'' ''transaction_id'' (map SaleData batch)"
  let ?run1 = "run\<lparr>calls := calls run @ [?b]\<rparr>"
  let ?R = "singleReply st (calls run @ [?b]) batch"
  have ub: "uploadBatch st run batch = foldl (uploadOne st) ?run1 batch"
    using assms by (simp add: uploadBatch_def remote_def)
  have c: "calls (uploadBatch st run batch) =
       calls run @ ?b # map (\<lambda>s. UpsertOne ''fact_sales'' ''transaction_id'' (SaleData s)) batch"
    by (simp add: ub uploadOnes_calls)
  have n: "skippedDuplicates (uploadBatch st run batch) = skippedDuplicates run +
             length (filter (\<lambda>k. conflictReply (?R k)) [0..<length batch])"
    "uploaded (uploadBatch st run batch) = uploaded run +
             length (filter (\<lambda>k. ?R k = Ok) [0..<length batch])"
    "errors (uploadBatch st run batch) = errors run +
             length (filter (\<lambda>k. otherFailure (?R k)) [0..<length batch])"
    using uploadOnes_counts[of st ?run1 batch] by (simp_all add: ub)
  have all: "allDirty (uploadBatch st run batch) = allDirty run @
      concat (map (\<lambda>k. case ?R k of
                         Failed e \<Rightarrow> [if isConflict e then alreadyExistsEntry (batch ! k)
                                       else uploadFailedEntry (batch ! k) e]
                       | _ \<Rightarrow> [])
                [0..<length batch])"
    using uploadOnes_dirty[of st ?run1 batch] by (simp add: ub)
  have d: "(if isConflict e then alreadyExistsEntry (batch ! k)
            else uploadFailedEntry (batch ! k) e)
             \<in> set (allDirty (uploadBatch st run batch))"
    if "k < length batch" and "?R k = Failed e" for k e
    unfolding all using that by (auto intro!: bexI[of _ k])
  have inc: "str_includes (''Upload failed: '' @ errMessage e) (errMessage e)" for e
    by (rule str_includes_self_suffix)
  show ?thesis
    using c n d inc all
    unfolding alreadyExistsEntry_def uploadFailedEntry_def
    by blast
qed

theorem sales_batch_fallback_witness:
  "mixedStore (calls emptySalesRun)
      (Upsert ''fact_sales'' ''transaction_id''
         (map SaleData [sampleSale ''TA000001'', sampleSale ''TA000002'', sampleSale ''TA000003'']))
     = Failed (SbError ''57014'' ''statement timeout'') \<and>
   calls (uploadBatch mixedStore emptySalesRun
            [sampleSale ''TA000001'', sampleSale ''TA000002'', sampleSale ''TA000003'']) =
     [Upsert ''fact_sales'' ''transaction_id''
        [SaleData (sampleSale ''TA000001''), SaleData (sampleSale ''TA000002''),
         SaleData (sampleSale ''TA000003'')],
      UpsertOne ''fact_sales'' ''transaction_id'' (SaleData (sampleSale ''TA000001'')),
      UpsertOne ''fact_sales'' ''transaction_id'' (SaleData (sampleSale ''TA000002'')),
      UpsertOne ''fact_sales'' ''transaction_id'' (SaleData (sampleSale ''TA000003''))] \<and>
   skippedDuplicates (uploadBatch mixedStore emptySalesRun
      [sampleSale ''TA000001'', sampleSale ''TA000002'', sampleSale ''TA000003'']) = 1 \<and>
   uploaded (uploadBatch mixedStore emptySalesRun
      [sampleSale ''TA000001'', sampleSale ''TA000002'', sampleSale ''TA000003'']) = 1 \<and>
   errors (uploadBatch mixedStore emptySalesRun
      [sampleSale ''TA000001'', sampleSale ''TA000002'', sampleSale ''TA000003'']) = 1 \<and>
   allDirty (uploadBatch mixedStore emptySalesRun
      [sampleSale ''TA000001'', sampleSale ''TA000002'', sampleSale ''TA000003'']) =
     [\<lparr>source_table = ''travel_agency'', original_data = SaleData (sampleSale ''TA000001''),
       error_reason = ''Transaction ID already exists in database: TA000001''\<rparr>,
      \<lparr>source_table = ''travel_agency'', original_data = SaleData (sampleSale ''TA000002''),
       error_reason = ''Upload failed: service unavailable''\<rparr>]"
proof -
  let ?batch = "[sampleSale ''TA000001'', sampleSale ''TA000002'', sampleSale ''TA000003'']"
  let ?b = "Upsert ''fact_sales'' ''transaction_id'' (map SaleData ?batch)"
  let ?R = "singleReply mixedStore (calls emptySalesRun @ [?b]) ?batch"
  have h: "mixedStore (calls emptySalesRun) ?b = Failed (SbError ''57014'' ''statement timeout'')"
    by (simp add: mixedStore_def)
  have r: "?R 0 = Failed uniqueViolation" "?R 1 = Failed unavailable" "?R 2 = Ok"
    by code_simp+
  have rn: "singleReply mixedStore
              [Upsert ''fact_sales'' ''transaction_id''
                 [SaleData (sampleSale ''TA000001''), SaleData (sampleSale ''TA000002''),
                  SaleData (sampleSale ''TA000003'')]] ?batch 0 = Failed uniqueViolation"
    "singleReply mixedStore
              [Upsert ''fact_sales'' ''transaction_id''
                 [SaleData (sampleSale ''TA000001''), SaleData (sampleSale ''TA000002''),
                  SaleData (sampleSale ''TA000003'')]] ?batch (Suc 0) = Failed unavailable"
    "singleReply mixedStore
              [Upsert ''fact_sales'' ''transaction_id''
                 [SaleData (sampleSale ''TA000001''), SaleData (sampleSale ''TA000002''),
                  SaleData (sampleSale ''TA000003'')]] ?batch 2 = Ok"
    by code_simp+
  have u: "[0..<length ?batch] = [0, 1, 2]" by code_simp
  have k: "isConflict uniqueViolation" "\<not> isConflict unavailable" by code_simp+
  have nothrow: "\<forall>k<length ?batch. \<forall>m. ?R k \<noteq> Thrown m"
    using r by (auto simp: less_Suc_eq numeral_3_eq_3 numeral_2_eq_2)
  have s: "sales_source (sampleSale i) = ''travel_agency''"
    "transaction_id (sampleSale i) = i" for i
    by (simp_all add: sampleSale_def)
  have e: "errMessage unavailable = ''service unavailable''" by (simp add: unavailable_def)
  note t = sales_batch_fallback[of mixedStore emptySalesRun ?batch
             "SbError ''57014'' ''statement timeout''", OF h]
  have calls: "calls (uploadBatch mixedStore emptySalesRun ?batch) =
     [?b,
      UpsertOne ''fact_sales'' ''transaction_id'' (SaleData (sampleSale ''TA000001'')),
      UpsertOne ''fact_sales'' ''transaction_id'' (SaleData (sampleSale ''TA000002'')),
      UpsertOne ''fact_sales'' ''transaction_id'' (SaleData (sampleSale ''TA000003''))]"
    using t by (simp add: emptySalesRun_def)
  have counts: "skippedDuplicates (uploadBatch mixedStore emptySalesRun ?batch) = 1"
    "uploaded (uploadBatch mixedStore emptySalesRun ?batch) = 1"
    "errors (uploadBatch mixedStore emptySalesRun ?batch) = 1"
    using t unfolding u
    by (simp_all add: rn k conflictReply_def otherFailure_def emptySalesRun_def)
  have dirty: "allDirty (uploadBatch mixedStore emptySalesRun ?batch) =
     [\<lparr>source_table = ''travel_agency'', original_data = SaleData (sampleSale ''TA000001''),
       error_reason = ''Transaction ID already exists in database: TA000001''\<rparr>,
      \<lparr>source_table = ''travel_agency'', original_data = SaleData (sampleSale ''TA000002''),
       error_reason = ''Upload failed: service unavailable''\<rparr>]"
    using t nothrow unfolding u
    by (simp add: rn k s e emptySalesRun_def)
  show ?thesis using h calls counts dirty by simp
qed

subsection \<open>The quarantine sink\<close>

lemma acknowledged_iff:
  "acknowledged st tr c \<longleftrightarrow> (\<exists>k<length tr. tr ! k = c \<and> st (take k tr) c = Ok)"
  by (auto simp: acknowledged_def list_ex_iff)

lemma acknowledged_here: "st tr c = Ok \<Longrightarrow> acknowledged st (tr @ c # rest) c"
  unfolding acknowledged_iff by (rule exI[of _ "length tr"]) simp

lemma saveDirtyBatch_completed:
  assumes "saveDirtyBatch st fs run b = Completed run1"
  shows "calls run1 = calls run @ [InsertDirty b]"
    and "allDirty run1 = allDirty run"
    and "(st (calls run) (InsertDirty b) = Ok \<and> localFile run1 = localFile run) \<or>
         localFile run1 = localFile run @ [b]"
  using assms
  by (auto simp: saveDirtyBatch_def remote_def split: reply.splits option.splits)

lemma saveDirtyBatch_fatal:
  assumes "saveDirtyBatch st fs run b = Fatal m run1"
  shows "allDirty run1 = allDirty run"
    and "calls run1 = calls run @ [InsertDirty b]"
    and "localFile run1 = localFile run"
    and "st (calls run) (InsertDirty b) \<noteq> Ok"
    and "\<And>e. st (calls run) (InsertDirty b) = Failed e \<Longrightarrow> fs (localFile run) b = Some m"
  using assms
  by (auto simp: saveDirtyBatch_def remote_def split: reply.splits option.splits)

lemma saveDirtyLoop_completed:
  "saveDirtyLoop st fs run bs = Completed run' \<Longrightarrow>
     (\<exists>cs. calls run' = calls run @ cs) \<and> (\<exists>ls. localFile run' = localFile run @ ls) \<and>
     allDirty run' = allDirty run \<and>
     (\<forall>b\<in>set bs. acknowledged st (calls run') (InsertDirty b) \<or> b \<in> set (localFile run'))"
proof (induction bs arbitrary: run)
  case Nil
  then show ?case by simp
next
  case (Cons b bs)
  from Cons.prems obtain run1 where
    b1: "saveDirtyBatch st fs run b = Completed run1" and
    rest: "saveDirtyLoop st fs run1 bs = Completed run'"
    by (auto split: run_end.splits)
  note ih = Cons.IH[OF rest]
  from ih obtain cs where cs: "calls run' = calls run1 @ cs" by blast
  from ih obtain ls where ls: "localFile run' = localFile run1 @ ls" by blast
  note sb = saveDirtyBatch_completed[OF b1]
  have here: "acknowledged st (calls run') (InsertDirty b) \<or> b \<in> set (localFile run')"
  proof (cases "st (calls run) (InsertDirty b) = Ok")
    case True
    then have "acknowledged st (calls run @ InsertDirty b # cs) (InsertDirty b)"
      by (rule acknowledged_here)
    then show ?thesis by (simp add: cs sb(1))
  next
    case False
    then have "localFile run1 = localFile run @ [b]" using sb(3) by blast
    then show ?thesis by (simp add: ls)
  qed
  have c: "\<exists>cs'. calls run' = calls run @ cs'" by (simp add: cs sb(1))
  have l: "\<exists>ls'. localFile run' = localFile run @ ls'" using sb(3) ls by auto
  have a: "allDirty run' = allDirty run" using ih sb(2) by simp
  show ?case using here ih c l a by simp
qed

lemma saveDirtyLoop_fatal:
  "saveDirtyLoop st fs run bs = Fatal m run' \<Longrightarrow>
     allDirty run' = allDirty run \<and>
     (\<exists>pre b post h.
        bs = pre @ b # post \<and> calls run' = h @ [InsertDirty b] \<and>
        (\<exists>cs. h @ [InsertDirty b] = calls run @ cs) \<and>
        (\<exists>ls. localFile run' = localFile run @ ls) \<and>
        st h (InsertDirty b) \<noteq> Ok \<and>
        (\<forall>e. st h (InsertDirty b) = Failed e \<longrightarrow> fs (localFile run') b = Some m) \<and>
        (\<forall>b'\<in>set pre. acknowledged st (calls run') (InsertDirty b') \<or>
                        b' \<in> set (localFile run')))"
proof (induction bs arbitrary: run)
  case Nil
  then show ?case by simp
next
  case (Cons b bs)
  show ?case
  proof (cases "saveDirtyBatch st fs run b")
    case (Fatal m1 run1)
    then have e: "m1 = m" "run1 = run'" using Cons.prems by simp_all
    note f = saveDirtyBatch_fatal[OF Fatal[unfolded e]]
    have "b # bs = [] @ b # bs \<and> calls run' = calls run @ [InsertDirty b] \<and>
        (\<exists>cs. calls run @ [InsertDirty b] = calls run @ cs) \<and>
        (\<exists>ls. localFile run' = localFile run @ ls) \<and>
        st (calls run) (InsertDirty b) \<noteq> Ok \<and>
        (\<forall>e. st (calls run) (InsertDirty b) = Failed e \<longrightarrow> fs (localFile run') b = Some m) \<and>
        (\<forall>b'\<in>set []. acknowledged st (calls run') (InsertDirty b') \<or>
                        b' \<in> set (localFile run'))"
      using f by simp
    then show ?thesis using f(1) by blast
  next
    case (Completed run1)
    then have rest: "saveDirtyLoop st fs run1 bs = Fatal m run'" using Cons.prems by simp
    note sb = saveDirtyBatch_completed[OF Completed]
    from Cons.IH[OF rest] obtain pre b' post h cs ls where
      a: "allDirty run' = allDirty run1" and
      p: "bs = pre @ b' # post" "calls run' = h @ [InsertDirty b']"
         "h @ [InsertDirty b'] = calls run1 @ cs" "localFile run' = localFile run1 @ ls"
         "st h (InsertDirty b') \<noteq> Ok"
         "\<forall>e. st h (InsertDirty b') = Failed e \<longrightarrow> fs (localFile run') b' = Some m"
         "\<forall>x\<in>set pre. acknowledged st (calls run') (InsertDirty x) \<or> x \<in> set (localFile run')"
      by blast
    have cr: "calls run' = calls run @ InsertDirty b # cs" using p(2,3) sb(1) by simp
    have here: "acknowledged st (calls run') (InsertDirty b) \<or> b \<in> set (localFile run')"
    proof (cases "st (calls run) (InsertDirty b) = Ok")
      case True
      then have "acknowledged st (calls run @ InsertDirty b # cs) (InsertDirty b)"
        by (rule acknowledged_here)
      then show ?thesis by (simp add: cr)
    next
      case False
      then have "localFile run1 = localFile run @ [b]" using sb(3) by blast
      then show ?thesis by (simp add: p(4))
    qed
    have l: "\<exists>ls'. localFile run' = localFile run @ ls'" using sb(3) p(4) by auto
    have c: "\<exists>cs'. h @ [InsertDirty b'] = calls run @ cs'" using p(3) sb(1) by simp
    have "b # bs = (b # pre) @ b' # post \<and> calls run' = h @ [InsertDirty b'] \<and>
        (\<exists>cs. h @ [InsertDirty b'] = calls run @ cs) \<and>
        (\<exists>ls. localFile run' = localFile run @ ls) \<and>
        st h (InsertDirty b') \<noteq> Ok \<and>
        (\<forall>e. st h (InsertDirty b') = Failed e \<longrightarrow> fs (localFile run') b' = Some m) \<and>
        (\<forall>x\<in>set (b # pre). acknowledged st (calls run') (InsertDirty x) \<or>
                             x \<in> set (localFile run'))"
      using p here l c by simp
    moreover have "allDirty run' = allDirty run" using a sb(2) by simp
    ultimately show ?thesis by blast
  qed
qed

text \<open>
  C6 as stated fails in \<open>saveDirtyData\<close>: when the insert into the quarantine table
  returns an error, the function returns normally and nothing is written to a local file.
\<close>

theorem saveDirtyData_no_local_write:
  "saveDirtyData (failingStore unavailable) emptyWorld
      [\<lparr>row = scenarioRow ''P1'', reason = ''Invalid passenger key''\<rparr>] ''passengers'' =
     Inr \<lparr>calls = [InsertDirty [\<lparr>source_table = ''passengers'',
                                   original_data = RowData (scenarioRow ''P1''),
                                   error_reason = ''Invalid passenger key''\<rparr>]],
          localFile = []\<rparr>"
  by code_simp

text \<open>
  C6, as the code has it, for \<open>uploadAllSales\<close>. When the run completes, every batch of
  the quarantine list was either accepted by the remote table or appended to the local
  backup file. When the run ends fatally, it does so at the insert of one batch of the
  quarantine list, its last call: that insert did not succeed, and if it returned an
  error then the append of the batch to the local file threw, with the message the run
  ends on; every batch before that one was accepted by the remote table or appended to
  the local file.
\<close>

theorem sales_quarantine_fallback:
  "(uploadAllSales sd st fs w0 tr cr = Completed run \<longrightarrow>
      (\<forall>b\<in>set (batchesOf 100 (allDirty run)).
         acknowledged st (calls run) (InsertDirty b) \<or> b \<in> set (localFile run))) \<and>
   (uploadAllSales sd st fs w0 tr cr = Fatal m run \<longrightarrow>
      (\<exists>pre b post h.
         batchesOf 100 (allDirty run) = pre @ b # post \<and>
         calls run = h @ [InsertDirty b] \<and>
         st h (InsertDirty b) \<noteq> Ok \<and>
         (\<forall>e. st h (InsertDirty b) = Failed e \<longrightarrow> fs (localFile run) b = Some m) \<and>
         (\<forall>b'\<in>set pre. acknowledged st (calls run) (InsertDirty b') \<or>
                         b' \<in> set (localFile run))))"
proof (intro conjI impI)
  assume "uploadAllSales sd st fs w0 tr cr = Completed run"
  then obtain run1 where
    "saveDirtyLoop st fs run1 (batchesOf 100 (allDirty run1)) = Completed run"
    by (auto simp: uploadAllSales_def Let_def)
  from saveDirtyLoop_completed[OF this]
  show "\<forall>b\<in>set (batchesOf 100 (allDirty run)).
         acknowledged st (calls run) (InsertDirty b) \<or> b \<in> set (localFile run)"
    by simp
next
  assume "uploadAllSales sd st fs w0 tr cr = Fatal m run"
  then obtain run1 where
    "saveDirtyLoop st fs run1 (batchesOf 100 (allDirty run1)) = Fatal m run"
    by (auto simp: uploadAllSales_def Let_def)
  from saveDirtyLoop_fatal[OF this]
  have "allDirty run = allDirty run1" and
    "\<exists>pre b post h.
        batchesOf 100 (allDirty run1) = pre @ b # post \<and> calls run = h @ [InsertDirty b] \<and>
        st h (InsertDirty b) \<noteq> Ok \<and>
        (\<forall>e. st h (InsertDirty b) = Failed e \<longrightarrow> fs (localFile run) b = Some m) \<and>
        (\<forall>b'\<in>set pre. acknowledged st (calls run) (InsertDirty b') \<or>
                        b' \<in> set (localFile run))"
    by blast+
  then show "\<exists>pre b post h.
         batchesOf 100 (allDirty run) = pre @ b # post \<and>
         calls run = h @ [InsertDirty b] \<and>
         st h (InsertDirty b) \<noteq> Ok \<and>
         (\<forall>e. st h (InsertDirty b) = Failed e \<longrightarrow> fs (localFile run) b = Some m) \<and>
         (\<forall>b'\<in>set pre. acknowledged st (calls run) (InsertDirty b') \<or>
                         b' \<in> set (localFile run))"
    by simp
qed

theorem sales_quarantine_fallback_witness:
  "uploadAllSales sampleDate (failingStore unavailable) appendWorks emptyWorld [badKeyRow] [] =
     Completed \<lparr>calls = [InsertDirty [badKeyEntry]], localFile = [[badKeyEntry]],
                uploaded = 0, errors = 0, skippedDuplicates = 0,
                allDirty = [badKeyEntry], dirtySaved = 0\<rparr> \<and>
   \<not> acknowledged (failingStore unavailable) [InsertDirty [badKeyEntry]] (InsertDirty [badKeyEntry]) \<and>
   [badKeyEntry] \<in> set [[badKeyEntry]] \<and>
   uploadAllSales sampleDate (failingStore unavailable) appendFails emptyWorld [badKeyRow] [] =
     Fatal ''ENOSPC: no space left on device''
       \<lparr>calls = [InsertDirty [badKeyEntry]], localFile = [],
        uploaded = 0, errors = 0, skippedDuplicates = 0,
        allDirty = [badKeyEntry], dirtySaved = 0\<rparr> \<and>
   failingStore unavailable [] (InsertDirty [badKeyEntry]) = Failed unavailable \<and>
   appendFails [] [badKeyEntry] = Some ''ENOSPC: no space left on device''"
proof -
  let ?R1 = "\<lparr>calls = [InsertDirty [badKeyEntry]], localFile = [[badKeyEntry]],
                uploaded = 0, errors = 0, skippedDuplicates = 0,
                allDirty = [badKeyEntry], dirtySaved = 0\<rparr>"
  let ?R2 = "\<lparr>calls = [InsertDirty [badKeyEntry]], localFile = [],
        uploaded = 0, errors = 0, skippedDuplicates = 0,
        allDirty = [badKeyEntry], dirtySaved = 0\<rparr>"
  have c: "uploadAllSales sampleDate (failingStore unavailable) appendWorks emptyWorld
             [badKeyRow] [] = Completed ?R1"
    by code_simp
  have f: "uploadAllSales sampleDate (failingStore unavailable) appendFails emptyWorld
             [badKeyRow] [] = Fatal ''ENOSPC: no space left on device'' ?R2"
    by code_simp
  have b: "batchesOf 100 [badKeyEntry] = [[badKeyEntry]]" by code_simp
  have n: "\<not> acknowledged (failingStore unavailable) [InsertDirty [badKeyEntry]]
              (InsertDirty [badKeyEntry])"
    by (simp add: acknowledged_def failingStore_def)
  have r: "failingStore unavailable [] (InsertDirty [badKeyEntry]) = Failed unavailable"
    by (simp add: failingStore_def)
  from sales_quarantine_fallback[of sampleDate "failingStore unavailable" appendWorks emptyWorld
         "[badKeyRow]" "[]" ?R1] c b n
  have in_file: "[badKeyEntry] \<in> set [[badKeyEntry]]" by simp
  from sales_quarantine_fallback[of sampleDate "failingStore unavailable" appendFails emptyWorld
         "[badKeyRow]" "[]" ?R2 "''ENOSPC: no space left on device''"] f
  obtain pre b' post h where
    p: "batchesOf 100 (allDirty ?R2) = pre @ b' # post" "calls ?R2 = h @ [InsertDirty b']"
       "\<forall>e. failingStore unavailable h (InsertDirty b') = Failed e \<longrightarrow>
            appendFails (localFile ?R2) b' = Some ''ENOSPC: no space left on device''"
    by blast
  from p(2) have hb: "h = []" "b' = [badKeyEntry]" by simp_all
  from p(3) have app: "appendFails [] [badKeyEntry] = Some ''ENOSPC: no space left on device''"
    unfolding hb by (simp add: failingStore_def)
  show ?thesis using c f n r in_file app by simp
qed

end
